theory Spec2Isabelle
  imports Complex_Main "HOL-Library.Multiset" "HOL-Library.Char_ord" "HOL-Library.List_Lexorder"
    "HOL-Library.Product_Lexorder"
begin

section \<open>PowerGenome generator clustering: a shallow embedding of generators.py\<close>

text \<open>
  Tables (pandas data frames) are lists of rows. A column that may hold NaN is an
  \<open>option\<close>, with \<open>None\<close> for NaN. Floating point numbers are modelled by the
  reals, so rounding error of the float arithmetic is outside the model, except for the
  capacity totals of the removal functions, where float64 addition is modelled with its
  rounding. A Python
  exception is a value \<open>Inl e\<close> of a sum type.
\<close>

datatype py_error =
    AssertionError string
  | KeyError string
  | TypeError
  | AttributeError
  | ValueError
  | ZeroDivisionError

subsection \<open>Rounding and float64 addition\<close>

text \<open>
  Rounding to the nearest integer, half way between two integers to the even one, as
  IEEE 754 and numpy round.
\<close>

definition round_half_even :: "real \<Rightarrow> int" where
  "round_half_even y =
     (if y - real_of_int \<lfloor>y\<rfloor> < 1 / 2 then \<lfloor>y\<rfloor>
      else if y - real_of_int \<lfloor>y\<rfloor> > 1 / 2 then \<lfloor>y\<rfloor> + 1
      else if even \<lfloor>y\<rfloor> then \<lfloor>y\<rfloor> else \<lfloor>y\<rfloor> + 1)"

text \<open>
  A float64 is zero or a real \<open>m * 2 ^ e\<close> with an integer \<open>m\<close>,
  \<open>2 ^ 52 \<le> |m| < 2 ^ 53\<close>. The sum of two float64 is their exact sum rounded to
  the nearest float64, ties to the even \<open>m\<close>. Overflow and subnormal numbers, which
  capacities in MW do not reach, are outside the model. The exponent of a number is
  found by halving or doubling it until it lies between \<open>2 ^ 52\<close> and \<open>2 ^ 53\<close>;
  the exponents of float64 span fewer than 2200 steps.
\<close>

fun float64_exponent :: "nat \<Rightarrow> real \<Rightarrow> int \<Rightarrow> int" where
  "float64_exponent 0 x e = e"
| "float64_exponent (Suc fuel) x e =
     (if 2 ^ 53 \<le> x then float64_exponent fuel (x / 2) (e + 1)
      else if x < 2 ^ 52 then float64_exponent fuel (x * 2) (e - 1)
      else e)"

definition pow2 :: "int \<Rightarrow> real" where
  "pow2 e = (if 0 \<le> e then 2 ^ nat e else 1 / 2 ^ nat (- e))"

definition float64_round :: "real \<Rightarrow> real" where
  "float64_round x =
     (if x = 0 then 0
      else real_of_int (round_half_even (x / pow2 (float64_exponent 2200 \<bar>x\<bar> 0))) *
           pow2 (float64_exponent 2200 \<bar>x\<bar> 0))"

definition float64_add :: "real \<Rightarrow> real \<Rightarrow> real" where
  "float64_add a b = float64_round (a + b)"

text \<open>
  \<open>Series.sum()\<close> of a float64 column: the values that are not NaN are added from
  left to right, starting from zero, each addition rounded. (For a column of eight
  values or more numpy adds in blocks, in another order; the tables evaluated below
  have three rows.)
\<close>

definition float64_sum :: "real option list \<Rightarrow> real" where
  "float64_sum column = foldl float64_add 0 (List.map_filter (\<lambda>v. v) column)"

subsection \<open>Decimal text of an integer (Python's \<open>str\<close>)\<close>

definition digit_char :: "nat \<Rightarrow> char" where
  "digit_char d = char_of (48 + d)"

function str_nat :: "nat \<Rightarrow> string" where
  "str_nat n = (if n < 10 then [digit_char n] else str_nat (n div 10) @ [digit_char (n mod 10)])"
  by pat_completeness auto
termination
  by (relation "measure (\<lambda>n. n)") auto

definition str_int :: "int \<Rightarrow> string" where
  "str_int i = (if i < 0 then CHR ''-'' # str_nat (nat (- i)) else str_nat (nat i))"

subsection \<open>Generator rows and the synthetic join key\<close>

text \<open>
  A row of the EIA 860 generator table or of an 860m amendment sheet. Only the columns
  the removal functions read are named; every other column lives in the record
  extension.
\<close>

record generator =
  plant_id_eia :: int
  generator_id :: string
  capacity_mw :: "real option"

text \<open>
  \<open>create_plant_gen_id\<close> adds the column \<open>plant_gen_id\<close>; the table with that column
  is a list of pairs (row, key).
\<close>

definition create_plant_gen_id :: "'a generator_scheme list \<Rightarrow> ('a generator_scheme \<times> string) list" where
  "create_plant_gen_id df =
     map (\<lambda>r. (r, str_int (plant_id_eia r) @ ''_'' @ generator_id r)) df"

text \<open>\<open>df["plant_gen_id"].isin(other["plant_gen_id"])\<close>\<close>

definition isin_plant_gen_id :: "('b generator_scheme \<times> string) list \<Rightarrow> ('a generator_scheme \<times> string) \<Rightarrow> bool" where
  "isin_plant_gen_id other row = (snd row \<in> set (map snd other))"

text \<open>\<open>drop(columns="plant_gen_id")\<close>\<close>

definition drop_plant_gen_id :: "('a generator_scheme \<times> string) list \<Rightarrow> 'a generator_scheme list" where
  "drop_plant_gen_id t = map fst t"

subsection \<open>\<open>remove_canceled_860m\<close>\<close>

text \<open>The local variable \<open>canceled\<close> of \<open>remove_canceled_860m\<close>.\<close>

definition canceled :: "'a generator_scheme list \<Rightarrow> 'b generator_scheme list \<Rightarrow> ('a generator_scheme \<times> string) list" where
  "canceled df canceled_860m =
     filter (isin_plant_gen_id (create_plant_gen_id canceled_860m)) (create_plant_gen_id df)"

text \<open>The local variable \<open>not_canceled_df\<close>, after the key column is dropped.\<close>

definition not_canceled_df :: "'a generator_scheme list \<Rightarrow> 'b generator_scheme list \<Rightarrow> 'a generator_scheme list" where
  "not_canceled_df df canceled_860m =
     drop_plant_gen_id
       (filter (\<lambda>row. \<not> isin_plant_gen_id (create_plant_gen_id canceled_860m) row)
          (create_plant_gen_id df))"

definition remove_canceled_860m :: "'a generator_scheme list \<Rightarrow> 'b generator_scheme list \<Rightarrow> py_error + 'a generator_scheme list" where
  "remove_canceled_860m df canceled_860m =
     (if canceled df canceled_860m \<noteq> [] \<and>
         length (create_plant_gen_id df) \<noteq>
           length (canceled df canceled_860m) + length (not_canceled_df df canceled_860m)
      then Inl (AssertionError '''')
      else Inr (not_canceled_df df canceled_860m))"

subsection \<open>\<open>remove_retired_860m\<close>\<close>

definition retired :: "'a generator_scheme list \<Rightarrow> 'b generator_scheme list \<Rightarrow> ('a generator_scheme \<times> string) list" where
  "retired df retired_860m =
     filter (isin_plant_gen_id (create_plant_gen_id retired_860m)) (create_plant_gen_id df)"

definition not_retired_df :: "'a generator_scheme list \<Rightarrow> 'b generator_scheme list \<Rightarrow> 'a generator_scheme list" where
  "not_retired_df df retired_860m =
     drop_plant_gen_id
       (filter (\<lambda>row. \<not> isin_plant_gen_id (create_plant_gen_id retired_860m) row)
          (create_plant_gen_id df))"

definition remove_retired_860m :: "'a generator_scheme list \<Rightarrow> 'b generator_scheme list \<Rightarrow> py_error + 'a generator_scheme list" where
  "remove_retired_860m df retired_860m =
     (if retired df retired_860m \<noteq> [] \<and>
         length (create_plant_gen_id df) \<noteq>
           length (retired df retired_860m) + length (not_retired_df df retired_860m)
      then Inl (AssertionError '''')
      else Inr (not_retired_df df retired_860m))"

subsection \<open>\<open>remove_future_retirements_860m\<close>\<close>

text \<open>
  The source repeats the body of \<open>remove_retired_860m\<close>; the embedding repeats it too,
  so that the two can be compared.
\<close>

definition future_retired :: "'a generator_scheme list \<Rightarrow> 'b generator_scheme list \<Rightarrow> ('a generator_scheme \<times> string) list" where
  "future_retired df retired_860m =
     filter (isin_plant_gen_id (create_plant_gen_id retired_860m)) (create_plant_gen_id df)"

definition future_not_retired_df :: "'a generator_scheme list \<Rightarrow> 'b generator_scheme list \<Rightarrow> 'a generator_scheme list" where
  "future_not_retired_df df retired_860m =
     drop_plant_gen_id
       (filter (\<lambda>row. \<not> isin_plant_gen_id (create_plant_gen_id retired_860m) row)
          (create_plant_gen_id df))"

definition remove_future_retirements_860m :: "'a generator_scheme list \<Rightarrow> 'b generator_scheme list \<Rightarrow> py_error + 'a generator_scheme list" where
  "remove_future_retirements_860m df retired_860m =
     (if future_retired df retired_860m \<noteq> [] \<and>
         length (create_plant_gen_id df) \<noteq>
           length (future_retired df retired_860m) + length (future_not_retired_df df retired_860m)
      then Inl (AssertionError '''')
      else Inr (future_not_retired_df df retired_860m))"

subsection \<open>Capacity totals\<close>

text \<open>
  \<open>df[capacity].sum()\<close>, the total that the program computes in float64, with NaN
  skipped.
\<close>

definition float64_sum_capacity :: "'a generator_scheme list \<Rightarrow> real" where
  "float64_sum_capacity df = float64_sum (map capacity_mw df)"

text \<open>
  The total of the same capacities in exact arithmetic, which the float64 total
  approximates.
\<close>

definition nan_to_zero :: "real option \<Rightarrow> real" where
  "nan_to_zero v = (case v of None \<Rightarrow> 0 | Some x \<Rightarrow> x)"

definition exact_sum_capacity :: "'a generator_scheme list \<Rightarrow> real" where
  "exact_sum_capacity df = sum_list (map (\<lambda>r. nan_to_zero (capacity_mw r)) df)"

text \<open>
  Three generators of 0.1, 0.2 and 0.3 MW (the float64 nearest to each), the first of
  which is on the sheet of canceled and on the sheet of retired generators.
\<close>

definition three_generators :: "generator list" where
  "three_generators =
     [\<lparr>plant_id_eia = 1, generator_id = ''A'', capacity_mw = Some (float64_round (1 / 10))\<rparr>,
      \<lparr>plant_id_eia = 2, generator_id = ''A'', capacity_mw = Some (float64_round (1 / 5))\<rparr>,
      \<lparr>plant_id_eia = 3, generator_id = ''A'', capacity_mw = Some (float64_round (3 / 10))\<rparr>]"

definition first_generator_860m :: "generator list" where
  "first_generator_860m = [\<lparr>plant_id_eia = 1, generator_id = ''A'', capacity_mw = None\<rparr>]"

subsection \<open>Heat rates of the units table\<close>

text \<open>
  A row of \<open>units_model\<close> in \<open>create_region_technology_clusters\<close>. The table is
  indexed by plant, prime mover and first energy source; the technology description
  and the heat rate may both be missing (NaN).
\<close>

type_synonym hr_index = "int \<times> string \<times> string"

record unit_row =
  idx :: hr_index
  technology_description :: "string option"
  heat_rate_mmbtu_mwh :: "real option"

text \<open>
  Comparisons of a float column with a number: every ordering comparison with NaN is
  false, and \<open>NaN != c\<close> is true.
\<close>

definition nan_lt :: "real option \<Rightarrow> real \<Rightarrow> bool" where
  "nan_lt v c = (case v of None \<Rightarrow> False | Some x \<Rightarrow> x < c)"

definition nan_gt :: "real option \<Rightarrow> real \<Rightarrow> bool" where
  "nan_gt v c = (case v of None \<Rightarrow> False | Some x \<Rightarrow> x > c)"

definition nan_ne :: "real option \<Rightarrow> real \<Rightarrow> bool" where
  "nan_ne v c = (case v of None \<Rightarrow> True | Some x \<Rightarrow> x \<noteq> c)"

text \<open>
  The heat rates by plant, prime mover and fuel are a dictionary; \<open>Index.map\<close> gives
  NaN for a key the dictionary does not have, so the dictionary is a function into
  \<open>real option\<close>. First the rows without a heat rate take the value of the
  dictionary, then the rows with a heat rate above 35 do.
\<close>

definition assign_null_from_map :: "(hr_index \<Rightarrow> real option) \<Rightarrow> 'a unit_row_scheme list \<Rightarrow> 'a unit_row_scheme list" where
  "assign_null_from_map prime_mover_hr_map units_model =
     map (\<lambda>r. if heat_rate_mmbtu_mwh r = None
              then r\<lparr>heat_rate_mmbtu_mwh := prime_mover_hr_map (idx r)\<rparr> else r) units_model"

definition assign_above_35_from_map :: "(hr_index \<Rightarrow> real option) \<Rightarrow> 'a unit_row_scheme list \<Rightarrow> 'a unit_row_scheme list" where
  "assign_above_35_from_map prime_mover_hr_map units_model =
     map (\<lambda>r. if nan_gt (heat_rate_mmbtu_mwh r) 35
              then r\<lparr>heat_rate_mmbtu_mwh := prime_mover_hr_map (idx r)\<rparr> else r) units_model"

text \<open>
  "Set heat rates < 5 or > 35 mmbtu/MWh to nan. Don't change heat rates of 0".
\<close>

definition reset_out_of_band :: "'a unit_row_scheme list \<Rightarrow> 'a unit_row_scheme list" where
  "reset_out_of_band units_model =
     map (\<lambda>r. if (nan_lt (heat_rate_mmbtu_mwh r) 5 \<and> nan_ne (heat_rate_mmbtu_mwh r) 0)
                 \<or> nan_gt (heat_rate_mmbtu_mwh r) 35
              then r\<lparr>heat_rate_mmbtu_mwh := None\<rparr> else r) units_model"

text \<open>
  \<open>Series.median\<close> skips NaN, is the middle value of the sorted values when their
  number is odd and the mean of the two middle values when it is even, and is NaN for
  a series without a value.
\<close>

definition dropna :: "real option list \<Rightarrow> real list" where
  "dropna s = List.map_filter (\<lambda>v. v) s"

definition series_median :: "real option list \<Rightarrow> real option" where
  "series_median s =
     (let xs = sort (dropna s); n = length xs in
      if n = 0 then None
      else if odd n then Some (xs ! (n div 2))
      else Some ((xs ! (n div 2 - 1) + xs ! (n div 2)) / 2))"

text \<open>\<open>fill_na_heat_rates\<close>, a method of \<open>GeneratorClusters\<close>.\<close>

definition fillna :: "real option \<Rightarrow> real option list \<Rightarrow> real option list" where
  "fillna value s = map (\<lambda>v. case v of None \<Rightarrow> value | Some x \<Rightarrow> Some x) s"

definition fill_na_heat_rates :: "real option list \<Rightarrow> real option list" where
  "fill_na_heat_rates s =
     (if list_ex (\<lambda>v. v = None) s then fillna (series_median s) s else s)"

text \<open>
  \<open>units_model.technology_description == tech\<close>: a missing description equals
  nothing, not even another missing description.
\<close>

definition tech_eq :: "string option \<Rightarrow> string option \<Rightarrow> bool" where
  "tech_eq a b = (case a of None \<Rightarrow> False | Some x \<Rightarrow> (case b of None \<Rightarrow> False | Some y \<Rightarrow> x = y))"

text \<open>
  \<open>units_model.loc[sel, "heat_rate_mmbtu_mwh"] = values\<close>, where the values were read
  from the selected rows: they are written back in order.
\<close>

fun loc_assign :: "('a unit_row_scheme \<Rightarrow> bool) \<Rightarrow> real option list \<Rightarrow> 'a unit_row_scheme list \<Rightarrow> 'a unit_row_scheme list" where
  "loc_assign sel vs [] = []"
| "loc_assign sel vs (r # rs) =
     (if sel r
      then (case vs of
              [] \<Rightarrow> r # loc_assign sel [] rs
            | v # vs' \<Rightarrow> r\<lparr>heat_rate_mmbtu_mwh := v\<rparr> # loc_assign sel vs' rs)
      else r # loc_assign sel vs rs)"

text \<open>
  The loop "for tech in units_model["technology_description"]" runs once for every row
  of the table, and each round fills the missing heat rates of that row's technology.
\<close>

definition fill_tech :: "string option \<Rightarrow> 'a unit_row_scheme list \<Rightarrow> 'a unit_row_scheme list" where
  "fill_tech tech units_model =
     loc_assign (\<lambda>r. tech_eq (technology_description r) tech)
       (fill_na_heat_rates
          (map heat_rate_mmbtu_mwh
             (filter (\<lambda>r. tech_eq (technology_description r) tech) units_model)))
       units_model"

definition fill_all_techs :: "'a unit_row_scheme list \<Rightarrow> 'a unit_row_scheme list" where
  "fill_all_techs units_model =
     foldl (\<lambda>t tech. fill_tech tech t) units_model (map technology_description units_model)"

text \<open>
  The table after the two dictionary look-ups and the reset, before the fill, and the
  table after the fill.
\<close>

definition band_heat_rates :: "(hr_index \<Rightarrow> real option) \<Rightarrow> 'a unit_row_scheme list \<Rightarrow> 'a unit_row_scheme list" where
  "band_heat_rates prime_mover_hr_map units_model =
     reset_out_of_band
       (assign_above_35_from_map prime_mover_hr_map
          (assign_null_from_map prime_mover_hr_map units_model))"

definition assign_heat_rates :: "(hr_index \<Rightarrow> real option) \<Rightarrow> 'a unit_row_scheme list \<Rightarrow> 'a unit_row_scheme list" where
  "assign_heat_rates prime_mover_hr_map units_model =
     fill_all_techs (band_heat_rates prime_mover_hr_map units_model)"

text \<open>
  The median of the heat rates of a technology in a table, and the band in which a heat
  rate is kept.
\<close>

definition tech_median :: "string option \<Rightarrow> 'a unit_row_scheme list \<Rightarrow> real option" where
  "tech_median tech units_model =
     series_median (map heat_rate_mmbtu_mwh
        (filter (\<lambda>r. tech_eq (technology_description r) tech) units_model))"

definition valid_heat_rate :: "real \<Rightarrow> bool" where
  "valid_heat_rate h = (h = 0 \<or> (5 \<le> h \<and> h \<le> 35))"

text \<open>Auxiliary notions for the proofs about the fill loop.\<close>

definition fill_row :: "real option \<Rightarrow> 'a unit_row_scheme \<Rightarrow> 'a unit_row_scheme" where
  "fill_row m r = (if heat_rate_mmbtu_mwh r = None then r\<lparr>heat_rate_mmbtu_mwh := m\<rparr> else r)"

definition fill_where :: "(string option \<Rightarrow> bool) \<Rightarrow> 'a unit_row_scheme list \<Rightarrow> 'a unit_row_scheme list" where
  "fill_where P t0 =
     map (\<lambda>r. if P (technology_description r)
              then fill_row (tech_median (technology_description r) t0) r else r) t0"

definition banded_value :: "(hr_index \<Rightarrow> real option) \<Rightarrow> 'a unit_row_scheme \<Rightarrow> real option" where
  "banded_value pm r =
     (let v1 = (if heat_rate_mmbtu_mwh r = None then pm (idx r) else heat_rate_mmbtu_mwh r);
          v2 = (if nan_gt v1 35 then pm (idx r) else v1)
      in if (nan_lt v2 5 \<and> nan_ne v2 0) \<or> nan_gt v2 35 then None else v2)"

text \<open>A units table and a dictionary of heat rates used as a concrete instance.\<close>

definition example_units :: "unit_row list" where
  "example_units =
     [\<lparr>idx = (1, ''PS'', ''WAT''), technology_description = Some ''Hydroelectric Pumped Storage'',
        heat_rate_mmbtu_mwh = Some 0\<rparr>,
      \<lparr>idx = (2, ''ST'', ''BIT''), technology_description = Some ''Conventional Steam Coal'',
        heat_rate_mmbtu_mwh = Some 5\<rparr>,
      \<lparr>idx = (3, ''ST'', ''BIT''), technology_description = Some ''Conventional Steam Coal'',
        heat_rate_mmbtu_mwh = Some 35\<rparr>,
      \<lparr>idx = (4, ''ST'', ''BIT''), technology_description = Some ''Conventional Steam Coal'',
        heat_rate_mmbtu_mwh = Some 3\<rparr>,
      \<lparr>idx = (5, ''ST'', ''BIT''), technology_description = Some ''Conventional Steam Coal'',
        heat_rate_mmbtu_mwh = Some 40\<rparr>,
      \<lparr>idx = (6, ''ST'', ''BIT''), technology_description = Some ''Conventional Steam Coal'',
        heat_rate_mmbtu_mwh = None\<rparr>,
      \<lparr>idx = (7, ''ST'', ''BIT''), technology_description = Some ''Conventional Steam Coal'',
        heat_rate_mmbtu_mwh = None\<rparr>,
      \<lparr>idx = (8, ''ST'', ''BIT''), technology_description = Some ''Conventional Steam Coal'',
        heat_rate_mmbtu_mwh = Some 11\<rparr>]"

definition example_hr_map :: "hr_index \<Rightarrow> real option" where
  "example_hr_map k = (if k = (6, ''ST'', ''BIT'') then Some (21 / 2)
                       else if k = (5, ''ST'', ''BIT'') then Some 50 else None)"

subsection \<open>Grouping rows by a key\<close>

text \<open>
  \<open>df.groupby(key)\<close>: one group for every key that occurs, the keys in sorted order,
  the rows of a group in the order of the table.
\<close>

definition groupby :: "('r \<Rightarrow> 'k::linorder) \<Rightarrow> 'r list \<Rightarrow> ('k \<times> 'r list) list" where
  "groupby key df = map (\<lambda>k. (k, filter (\<lambda>r. key r = k) df)) (sort (remdups (map key df)))"

subsection \<open>Operating and retired units\<close>

text \<open>
  A row of \<open>units_model\<close> where \<open>create_region_technology_clusters\<close> selects the units
  it clusters and the units it reports as retired. The region comes from an inner join
  with the plant-region map and the technology has passed the query for the
  technologies of \<open>num_clusters\<close>, so neither is missing; the retirement year is a
  float column and is NaN for a unit whose technology has no retirement age and that has
  no planned retirement date.
\<close>

record model_unit =
  model_region :: string
  technology :: string
  retirement_year :: "real option"

definition nan_le :: "real option \<Rightarrow> real \<Rightarrow> bool" where
  "nan_le v c = (case v of None \<Rightarrow> False | Some x \<Rightarrow> x \<le> c)"

text \<open>
  The rows that \<open>region_tech_grouped\<close> groups,
  \<open>technology.isin(techs) & ~(retirement_year <= model_year)\<close>.
\<close>

definition operating_units :: "string list \<Rightarrow> int \<Rightarrow> 'a model_unit_scheme list \<Rightarrow> 'a model_unit_scheme list" where
  "operating_units techs model_year units_model =
     filter (\<lambda>r. technology r \<in> set techs \<and> \<not> nan_le (retirement_year r) (real_of_int model_year))
       units_model"

definition region_tech_grouped :: "string list \<Rightarrow> int \<Rightarrow> 'a model_unit_scheme list \<Rightarrow> ((string \<times> string) \<times> 'a model_unit_scheme list) list" where
  "region_tech_grouped techs model_year units_model =
     groupby (\<lambda>r. (model_region r, technology r)) (operating_units techs model_year units_model)"

text \<open>\<open>self.retired\<close>, the rows with \<open>~(retirement_year > model_year)\<close>.\<close>

definition self_retired :: "int \<Rightarrow> 'a model_unit_scheme list \<Rightarrow> 'a model_unit_scheme list" where
  "self_retired model_year units_model =
     filter (\<lambda>r. \<not> nan_gt (retirement_year r) (real_of_int model_year)) units_model"

definition example_model_units :: "model_unit list" where
  "example_model_units =
     [\<lparr>model_region = ''CA_N'', technology = ''Conventional Steam Coal'', retirement_year = Some 2025\<rparr>,
      \<lparr>model_region = ''CA_N'', technology = ''Geothermal'', retirement_year = None\<rparr>,
      \<lparr>model_region = ''CA_N'', technology = ''Geothermal'', retirement_year = Some 2050\<rparr>]"

subsection \<open>Unit groups and the values of a cluster\<close>

text \<open>
  A row of \<open>grouped\<close>, the result of \<open>group_units\<close>: one row for every plant and PUDL
  unit. The capacity (the column named by \<open>settings["capacity_col"]\<close>) and the minimum
  load are sums over the generators of the unit, which pandas computes with NaN
  skipped, so they are numbers; the heat rate and the two O&M costs are means and stay
  NaN when no row of the group has a value.
\<close>

record unit_group =
  ug_plant_id_eia :: int
  ug_unit_id_pudl :: string
  capacity :: real
  minimum_load_mw :: real
  ug_heat_rate_mmbtu_mwh :: "real option"
  Fixed_OM_Cost_per_MWyr :: "real option"
  Var_OM_Cost_per_MWh :: "real option"

text \<open>The same row with the column \<open>cluster\<close> that the clustering adds.\<close>

record clustered_unit = unit_group +
  cluster :: nat

definition set_cluster :: "unit_group \<Rightarrow> nat \<Rightarrow> clustered_unit" where
  "set_cluster u c =
     \<lparr>ug_plant_id_eia = ug_plant_id_eia u, ug_unit_id_pudl = ug_unit_id_pudl u,
      capacity = capacity u, minimum_load_mw = minimum_load_mw u,
      ug_heat_rate_mmbtu_mwh = ug_heat_rate_mmbtu_mwh u,
      Fixed_OM_Cost_per_MWyr = Fixed_OM_Cost_per_MWyr u,
      Var_OM_Cost_per_MWh = Var_OM_Cost_per_MWh u, cluster = c\<rparr>"

text \<open>
  A row of \<open>df_values\<close>, the result of \<open>calc_unit_cluster_values\<close>, indexed by the
  cluster. The inter-quartile range and the standard deviations, which the function
  adds as diagnostics, are left out.
\<close>

record cluster_values =
  cv_cluster :: nat
  cv_capacity :: "real option"
  cv_minimum_load_mw :: "real option"
  cv_heat_rate_mmbtu_mwh :: "real option"
  cv_Fixed_OM_Cost_per_MWyr :: "real option"
  cv_Var_OM_Cost_per_MWh :: "real option"
  Min_Power :: "real option"
  num_units :: nat
  cv_technology :: "string option"

text \<open>The aggregation \<open>"mean"\<close> of a column without NaN: NaN for no rows.\<close>

definition pd_mean :: "real list \<Rightarrow> real option" where
  "pd_mean xs = (if xs = [] then None else Some (sum_list xs / real (length xs)))"

text \<open>
  \<open>np.average(x, weights=w)\<close> raises ZeroDivisionError when the weights sum to zero; a
  NaN among the values makes the result NaN.
\<close>

definition np_average :: "real option list \<Rightarrow> real list \<Rightarrow> py_error + real option" where
  "np_average x weights =
     (if sum_list weights = 0 then Inl ZeroDivisionError
      else Inr (if None \<in> set x then None
                else Some (sum_list (map2 (\<lambda>v w. nan_to_zero v * w) x weights) / sum_list weights)))"

text \<open>
  The inner function \<open>wm\<close>: the average of a column over the rows of a group, weighted
  by the capacity of the same rows.
\<close>

definition wm :: "('a clustered_unit_scheme \<Rightarrow> real option) \<Rightarrow> 'a clustered_unit_scheme list \<Rightarrow> py_error + real option" where
  "wm col rows = np_average (map col rows) (map capacity rows)"

text \<open>
  A division of two float columns: NaN when either side is NaN. A division by zero
  gives an infinity or NaN in pandas; neither is a real number, and both are \<open>None\<close>
  here.
\<close>

definition nan_div :: "real option \<Rightarrow> real option \<Rightarrow> real option" where
  "nan_div a b =
     (case a of None \<Rightarrow> None
      | Some x \<Rightarrow> (case b of None \<Rightarrow> None
                   | Some y \<Rightarrow> if y = 0 then None else Some (x / y)))"

text \<open>The row of \<open>df_values\<close> for one group of \<open>df.groupby("cluster")\<close>.\<close>

definition agg_cluster :: "string option \<Rightarrow> nat \<Rightarrow> 'a clustered_unit_scheme list \<Rightarrow> py_error + cluster_values" where
  "agg_cluster technology_arg c rows =
     (case wm ug_heat_rate_mmbtu_mwh rows of
        Inl e \<Rightarrow> Inl e
      | Inr hr \<Rightarrow>
     (case wm Fixed_OM_Cost_per_MWyr rows of
        Inl e \<Rightarrow> Inl e
      | Inr fom \<Rightarrow>
     (case wm Var_OM_Cost_per_MWh rows of
        Inl e \<Rightarrow> Inl e
      | Inr vom \<Rightarrow>
        Inr \<lparr>cv_cluster = c,
             cv_capacity = pd_mean (map capacity rows),
             cv_minimum_load_mw = pd_mean (map minimum_load_mw rows),
             cv_heat_rate_mmbtu_mwh = hr,
             cv_Fixed_OM_Cost_per_MWyr = fom,
             cv_Var_OM_Cost_per_MWh = vom,
             Min_Power = nan_div (pd_mean (map minimum_load_mw rows)) (pd_mean (map capacity rows)),
             num_units = length rows,
             cv_technology = (case technology_arg of None \<Rightarrow> None
                              | Some t \<Rightarrow> if t = [] then None else Some t)\<rparr>)))"

text \<open>The first exception of a list of results, or all their values.\<close>

fun sequence_results :: "('e + 'a) list \<Rightarrow> 'e + 'a list" where
  "sequence_results [] = Inr []"
| "sequence_results (x # xs) =
     (case x of
        Inl e \<Rightarrow> Inl e
      | Inr v \<Rightarrow> (case sequence_results xs of Inl e \<Rightarrow> Inl e | Inr vs \<Rightarrow> Inr (v # vs)))"

text \<open>
  \<open>calc_unit_cluster_values\<close>: the rows without a heat rate are dropped, the rest is
  grouped by cluster and every group is aggregated.
\<close>

definition drop_null_heat_rate :: "'a clustered_unit_scheme list \<Rightarrow> 'a clustered_unit_scheme list" where
  "drop_null_heat_rate df =
     (if list_ex (\<lambda>u. ug_heat_rate_mmbtu_mwh u = None) df
      then filter (\<lambda>u. ug_heat_rate_mmbtu_mwh u \<noteq> None) df else df)"

definition calc_unit_cluster_values :: "'a clustered_unit_scheme list \<Rightarrow> string option \<Rightarrow> py_error + cluster_values list" where
  "calc_unit_cluster_values df technology_arg =
     sequence_results
       (map (\<lambda>g. agg_cluster technology_arg (fst g) (snd g))
          (groupby cluster (drop_null_heat_rate df)))"

text \<open>
  The aggregates in the words of the specification: the unweighted mean of the values
  of the member unit groups, and their mean weighted by capacity.
\<close>

definition unweighted_mean :: "real list \<Rightarrow> real" where
  "unweighted_mean xs = sum_list xs / real (length xs)"

definition capacity_weighted_mean :: "real list \<Rightarrow> real list \<Rightarrow> real" where
  "capacity_weighted_mean xs caps = sum_list (map2 (\<lambda>x w. x * w) xs caps) / sum_list caps"

text \<open>The member unit groups of a cluster: the rows with its label and with a heat rate.\<close>

definition cluster_members :: "nat \<Rightarrow> 'a clustered_unit_scheme list \<Rightarrow> 'a clustered_unit_scheme list" where
  "cluster_members c df = filter (\<lambda>u. cluster u = c \<and> ug_heat_rate_mmbtu_mwh u \<noteq> None) df"

subsection \<open>Clustering the unit groups of a region and technology\<close>

text \<open>
  One round of the loop over \<open>region_tech_grouped\<close>. \<open>cluster.KMeans\<close> and
  \<open>preprocessing.StandardScaler\<close> belong to scikit-learn, not to this program, and
  are parameters: \<open>KMeans n seed X\<close> is the attribute \<open>labels_\<close> of
  \<open>KMeans(n_clusters=n, random_state=seed).fit(X)\<close>, or the exception that \<open>fit\<close>
  raises, and \<open>fit_transform\<close> is \<open>StandardScaler().fit_transform\<close>. The features
  are the rows of a table of floats.
\<close>

type_synonym features = "real option list list"

text \<open>
  Without \<open>alt_cluster_method\<close> the number of clusters asked for is lowered to the
  number of unit groups when there are fewer of them, and the features are the fixed
  O&M cost and the heat rate. With \<open>alt_cluster_method\<close> the number is passed as it
  is and the features are all columns of \<open>grouped\<close>.
\<close>

definition n_clusters :: "int \<Rightarrow> unit_group list \<Rightarrow> int" where
  "n_clusters num_clusters grouped =
     (if int (length grouped) < num_clusters then int (length grouped) else num_clusters)"

definition cluster_cols :: "unit_group list \<Rightarrow> features" where
  "cluster_cols grouped = map (\<lambda>u. [Fixed_OM_Cost_per_MWyr u, ug_heat_rate_mmbtu_mwh u]) grouped"

definition all_cols :: "unit_group list \<Rightarrow> features" where
  "all_cols grouped =
     map (\<lambda>u. [Some (capacity u), Some (minimum_load_mw u), ug_heat_rate_mmbtu_mwh u,
               Fixed_OM_Cost_per_MWyr u, Var_OM_Cost_per_MWh u]) grouped"

text \<open>\<open>grouped["cluster"] = clusters.labels_ + 1\<close>\<close>

definition assign_labels :: "unit_group list \<Rightarrow> nat list \<Rightarrow> clustered_unit list" where
  "assign_labels grouped labels = map2 (\<lambda>u l. set_cluster u (l + 1)) grouped labels"

text \<open>
  The k-means step and what follows it: the labels become the column \<open>cluster\<close>, an
  assignment that raises ValueError when the lengths differ, and the cluster values are
  computed unless the number of clusters is zero.
\<close>

definition cluster_kmeans_values :: "(int \<Rightarrow> nat \<Rightarrow> features \<Rightarrow> py_error + nat list) \<Rightarrow> (features \<Rightarrow> features) \<Rightarrow> int \<Rightarrow> features \<Rightarrow> string \<Rightarrow> unit_group list \<Rightarrow> py_error + cluster_values list" where
  "cluster_kmeans_values KMeans fit_transform n X tech grouped =
     (case KMeans n 6 (fit_transform X) of
        Inl e \<Rightarrow> Inl e
      | Inr labels \<Rightarrow>
          if length labels \<noteq> length grouped then Inl ValueError
          else if n \<noteq> 0 then calc_unit_cluster_values (assign_labels grouped labels) (Some tech)
          else Inr [])"

text \<open>
  With a number of clusters that is not positive there is no clustering and no column
  \<open>cluster\<close>: zero skips the technology, a negative number makes
  \<open>calc_unit_cluster_values\<close> fail for want of the column.
\<close>

definition no_clustering :: "int \<Rightarrow> py_error + cluster_values list" where
  "no_clustering num_clusters = (if num_clusters \<noteq> 0 then Inl (KeyError ''cluster'') else Inr [])"

text \<open>
  \<open>region in alt_cluster_method and tech in
  alt_cluster_method[region]["technology_description"]\<close>. For such a pair the program
  calls \<open>cluster_by_owner\<close> with the argument \<open>self.weighted_ownership\<close>, an attribute
  that the class assigns nowhere (its assignment is commented out), so evaluating the
  argument raises AttributeError.
\<close>

definition owner_clustered :: "(string \<times> string list) list \<Rightarrow> string \<Rightarrow> string \<Rightarrow> bool" where
  "owner_clustered alt_cluster_method region tech =
     (case map_of alt_cluster_method region of None \<Rightarrow> False | Some techs \<Rightarrow> tech \<in> set techs)"

definition cluster_region_tech :: "(int \<Rightarrow> nat \<Rightarrow> features \<Rightarrow> py_error + nat list) \<Rightarrow> (features \<Rightarrow> features) \<Rightarrow> (string \<times> string list) list \<Rightarrow> string \<Rightarrow> string \<Rightarrow> int \<Rightarrow> unit_group list \<Rightarrow> py_error + cluster_values list" where
  "cluster_region_tech KMeans fit_transform alt_cluster_method region tech num_clusters grouped =
     (if alt_cluster_method = [] then
        (if num_clusters > 0
         then cluster_kmeans_values KMeans fit_transform (n_clusters num_clusters grouped)
                (cluster_cols grouped) tech grouped
         else no_clustering num_clusters)
      else if owner_clustered alt_cluster_method region tech then Inl AttributeError
      else if num_clusters > 0
      then cluster_kmeans_values KMeans fit_transform num_clusters (all_cols grouped) tech grouped
      else no_clustering num_clusters)"

text \<open>
  What scikit-learn documents of the two parameters: \<open>labels_\<close> holds one label for
  every sample, each label the index of a cluster and so below \<open>n_clusters\<close>, and
  \<open>fit\<close> raises ValueError for input with NaN, which the scaler passes on.
\<close>

definition sklearn_contract :: "(int \<Rightarrow> nat \<Rightarrow> features \<Rightarrow> py_error + nat list) \<Rightarrow> (features \<Rightarrow> features) \<Rightarrow> bool" where
  "sklearn_contract KMeans fit_transform =
     (\<forall>n seed X labels. KMeans n seed (fit_transform X) = Inr labels \<longrightarrow>
        length labels = length X \<and> (\<forall>l\<in>set labels. int l < n) \<and>
        (\<forall>row\<in>set X. None \<notin> set row))"

text \<open>Three clustered unit groups used as a concrete instance.\<close>

definition example_clustered :: "clustered_unit list" where
  "example_clustered =
     [\<lparr>ug_plant_id_eia = 1, ug_unit_id_pudl = ''1'', capacity = 100, minimum_load_mw = 40,
       ug_heat_rate_mmbtu_mwh = Some 10, Fixed_OM_Cost_per_MWyr = Some 30,
       Var_OM_Cost_per_MWh = Some 2, cluster = 1\<rparr>,
      \<lparr>ug_plant_id_eia = 2, ug_unit_id_pudl = ''1'', capacity = 300, minimum_load_mw = 60,
       ug_heat_rate_mmbtu_mwh = Some 12, Fixed_OM_Cost_per_MWyr = Some 50,
       Var_OM_Cost_per_MWh = Some 4, cluster = 1\<rparr>,
      \<lparr>ug_plant_id_eia = 3, ug_unit_id_pudl = ''3_GT1'', capacity = 200, minimum_load_mw = 50,
       ug_heat_rate_mmbtu_mwh = Some 9, Fixed_OM_Cost_per_MWyr = Some 20,
       Var_OM_Cost_per_MWh = Some 1, cluster = 2\<rparr>]"

definition example_cluster_values :: "cluster_values list" where
  "example_cluster_values =
     [\<lparr>cv_cluster = 1, cv_capacity = Some 200, cv_minimum_load_mw = Some 50,
       cv_heat_rate_mmbtu_mwh = Some (23 / 2), cv_Fixed_OM_Cost_per_MWyr = Some 45,
       cv_Var_OM_Cost_per_MWh = Some (7 / 2), Min_Power = Some (1 / 4), num_units = 2,
       cv_technology = Some ''Natural Gas Fired Combined Cycle''\<rparr>,
      \<lparr>cv_cluster = 2, cv_capacity = Some 200, cv_minimum_load_mw = Some 50,
       cv_heat_rate_mmbtu_mwh = Some 9, cv_Fixed_OM_Cost_per_MWyr = Some 20,
       cv_Var_OM_Cost_per_MWh = Some 1, Min_Power = Some (1 / 4), num_units = 1,
       cv_technology = Some ''Natural Gas Fired Combined Cycle''\<rparr>]"

text \<open>
  Instances of the parameters that meet the contract. Both refuse, as scikit-learn
  does, a number of clusters below one or above the number of samples, and input with
  NaN. The first is k-means on points that coincide: k-means gives every point the
  label of its nearest centre, so points that coincide get one label whatever the
  centres are and however many were asked for, and the standard scores of a column
  whose values are all equal are zero. The second labels the samples in turn.
\<close>

definition refused :: "int \<Rightarrow> features \<Rightarrow> bool" where
  "refused n X = (n < 1 \<or> int (length X) < n \<or> list_ex (\<lambda>row. None \<in> set row) X)"

definition one_label_KMeans :: "int \<Rightarrow> nat \<Rightarrow> features \<Rightarrow> py_error + nat list" where
  "one_label_KMeans n seed X = (if refused n X then Inl ValueError else Inr (map (\<lambda>p. 0) X))"

definition zero_scores :: "features \<Rightarrow> features" where
  "zero_scores X = map (map (\<lambda>v. case v of None \<Rightarrow> None | Some x \<Rightarrow> Some 0)) X"

fun labels_in_turn :: "nat \<Rightarrow> nat \<Rightarrow> 'a list \<Rightarrow> nat list" where
  "labels_in_turn n i [] = []"
| "labels_in_turn n i (x # xs) = (i mod n) # labels_in_turn n (Suc i) xs"

definition in_turn_KMeans :: "int \<Rightarrow> nat \<Rightarrow> features \<Rightarrow> py_error + nat list" where
  "in_turn_KMeans n seed X =
     (if refused n X then Inl ValueError else Inr (labels_in_turn (nat n) 0 X))"

definition unscaled :: "features \<Rightarrow> features" where
  "unscaled X = X"

definition two_equal_units :: "unit_group list" where
  "two_equal_units =
     [\<lparr>ug_plant_id_eia = 10, ug_unit_id_pudl = ''10_1'', capacity = 20, minimum_load_mw = 5,
       ug_heat_rate_mmbtu_mwh = Some 10, Fixed_OM_Cost_per_MWyr = Some 30,
       Var_OM_Cost_per_MWh = Some 2\<rparr>,
      \<lparr>ug_plant_id_eia = 11, ug_unit_id_pudl = ''11_1'', capacity = 60, minimum_load_mw = 15,
       ug_heat_rate_mmbtu_mwh = Some 10, Fixed_OM_Cost_per_MWyr = Some 30,
       Var_OM_Cost_per_MWh = Some 2\<rparr>]"

definition three_units :: "unit_group list" where
  "three_units =
     [\<lparr>ug_plant_id_eia = 20, ug_unit_id_pudl = ''1'', capacity = 100, minimum_load_mw = 40,
       ug_heat_rate_mmbtu_mwh = Some 10, Fixed_OM_Cost_per_MWyr = Some 30,
       Var_OM_Cost_per_MWh = Some 2\<rparr>,
      \<lparr>ug_plant_id_eia = 21, ug_unit_id_pudl = ''1'', capacity = 200, minimum_load_mw = 50,
       ug_heat_rate_mmbtu_mwh = Some 7, Fixed_OM_Cost_per_MWyr = Some 20,
       Var_OM_Cost_per_MWh = Some 1\<rparr>,
      \<lparr>ug_plant_id_eia = 22, ug_unit_id_pudl = ''2'', capacity = 300, minimum_load_mw = 60,
       ug_heat_rate_mmbtu_mwh = Some 12, Fixed_OM_Cost_per_MWyr = Some 50,
       Var_OM_Cost_per_MWh = Some 4\<rparr>]"

definition three_units_two_clusters :: "cluster_values list" where
  "three_units_two_clusters =
     [\<lparr>cv_cluster = 1, cv_capacity = Some 200, cv_minimum_load_mw = Some 50,
       cv_heat_rate_mmbtu_mwh = Some (23 / 2), cv_Fixed_OM_Cost_per_MWyr = Some 45,
       cv_Var_OM_Cost_per_MWh = Some (7 / 2), Min_Power = Some (1 / 4), num_units = 2,
       cv_technology = Some ''Geothermal''\<rparr>,
      \<lparr>cv_cluster = 2, cv_capacity = Some 200, cv_minimum_load_mw = Some 50,
       cv_heat_rate_mmbtu_mwh = Some 7, cv_Fixed_OM_Cost_per_MWyr = Some 20,
       cv_Var_OM_Cost_per_MWh = Some 1, Min_Power = Some (1 / 4), num_units = 1,
       cv_technology = Some ''Geothermal''\<rparr>]"

definition three_units_singletons :: "cluster_values list" where
  "three_units_singletons =
     [\<lparr>cv_cluster = 1, cv_capacity = Some 100, cv_minimum_load_mw = Some 40,
       cv_heat_rate_mmbtu_mwh = Some 10, cv_Fixed_OM_Cost_per_MWyr = Some 30,
       cv_Var_OM_Cost_per_MWh = Some 2, Min_Power = Some (2 / 5), num_units = 1,
       cv_technology = Some ''Geothermal''\<rparr>,
      \<lparr>cv_cluster = 2, cv_capacity = Some 200, cv_minimum_load_mw = Some 50,
       cv_heat_rate_mmbtu_mwh = Some 7, cv_Fixed_OM_Cost_per_MWyr = Some 20,
       cv_Var_OM_Cost_per_MWh = Some 1, Min_Power = Some (1 / 4), num_units = 1,
       cv_technology = Some ''Geothermal''\<rparr>,
      \<lparr>cv_cluster = 3, cv_capacity = Some 300, cv_minimum_load_mw = Some 60,
       cv_heat_rate_mmbtu_mwh = Some 12, cv_Fixed_OM_Cost_per_MWyr = Some 50,
       cv_Var_OM_Cost_per_MWh = Some 4, Min_Power = Some (1 / 5), num_units = 1,
       cv_technology = Some ''Geothermal''\<rparr>]"

subsection \<open>The existing capacity of a cluster\<close>

text \<open>
  A row of \<open>self.results\<close>: the values of a cluster with its region, the capacity
  renamed to \<open>Cap_size\<close>, and the columns that the derating and the existing capacity
  add. A column that a step has not added yet is NaN.
\<close>

record result_row =
  res_region :: string
  res_technology :: "string option"
  res_cluster :: nat
  Cap_size :: "real option"
  res_num_units :: nat
  capacity_factor :: "real option"
  unmodified_cap_size :: "real option"
  Existing_Cap_MW :: "real option"
  unmodified_existing_cap_mw :: "real option"

definition result_of_cluster :: "string \<Rightarrow> cluster_values \<Rightarrow> result_row" where
  "result_of_cluster region v =
     \<lparr>res_region = region, res_technology = cv_technology v, res_cluster = cv_cluster v,
      Cap_size = cv_capacity v, res_num_units = num_units v,
      capacity_factor = None, unmodified_cap_size = None,
      Existing_Cap_MW = None, unmodified_existing_cap_mw = None\<rparr>"

text \<open>A product of two float columns, NaN when either side is NaN.\<close>

definition nan_mul :: "real option \<Rightarrow> real option \<Rightarrow> real option" where
  "nan_mul a b =
     (case a of None \<Rightarrow> None
      | Some x \<Rightarrow> (case b of None \<Rightarrow> None | Some y \<Rightarrow> Some (x * y)))"

text \<open>
  \<open>round(3)\<close>: numpy rounds to the nearest multiple of one thousandth and, half way
  between two of them, to the even one.
\<close>

definition round3 :: "real \<Rightarrow> real" where
  "round3 x = real_of_int (round_half_even (x * 1000)) / 1000"

definition nan_round3 :: "real option \<Rightarrow> real option" where
  "nan_round3 v = (case v of None \<Rightarrow> None | Some x \<Rightarrow> Some (round3 x))"

text \<open>
  The settings that the steps read: whether \<open>capacity_factor_techs\<close> is a list, the
  flag \<open>derate_capacity\<close> and the list \<open>derate_techs\<close>. The capacity factors by region
  and technology come from \<open>gentype_region_capacity_factor\<close> and are merged from the
  left, so a row without a capacity factor has NaN.
\<close>

record derate_settings =
  capacity_factor_techs_is_list :: bool
  derate_capacity :: bool
  derate_techs :: "string list"

definition tech_isin :: "string option \<Rightarrow> string list \<Rightarrow> bool" where
  "tech_isin t techs = (case t of None \<Rightarrow> False | Some x \<Rightarrow> x \<in> set techs)"

definition merge_capacity_factors :: "(string \<times> string option \<Rightarrow> real option) \<Rightarrow> result_row list \<Rightarrow> result_row list" where
  "merge_capacity_factors capacity_factors results =
     map (\<lambda>r. r\<lparr>capacity_factor := capacity_factors (res_region r, res_technology r)\<rparr>) results"

definition derate :: "string list \<Rightarrow> result_row list \<Rightarrow> result_row list" where
  "derate techs results =
     map (\<lambda>r. if tech_isin (res_technology r) techs
              then r\<lparr>unmodified_cap_size := Cap_size r,
                     Cap_size := nan_mul (Cap_size r) (capacity_factor r)\<rparr>
              else r\<lparr>unmodified_cap_size := Cap_size r\<rparr>) results"

definition capacity_factor_step :: "derate_settings \<Rightarrow> (string \<times> string option \<Rightarrow> real option) \<Rightarrow> result_row list \<Rightarrow> result_row list" where
  "capacity_factor_step settings capacity_factors results =
     (if capacity_factor_techs_is_list settings
      then (if derate_capacity settings
            then derate (derate_techs settings) (merge_capacity_factors capacity_factors results)
            else merge_capacity_factors capacity_factors results)
      else results)"

definition round_results :: "result_row list \<Rightarrow> result_row list" where
  "round_results results =
     map (\<lambda>r. r\<lparr>Cap_size := nan_round3 (Cap_size r),
                 capacity_factor := nan_round3 (capacity_factor r),
                 unmodified_cap_size := nan_round3 (unmodified_cap_size r),
                 Existing_Cap_MW := nan_round3 (Existing_Cap_MW r),
                 unmodified_existing_cap_mw := nan_round3 (unmodified_existing_cap_mw r)\<rparr>) results"

definition set_existing_cap :: "result_row list \<Rightarrow> result_row list" where
  "set_existing_cap results =
     map (\<lambda>r. r\<lparr>Existing_Cap_MW := nan_mul (Cap_size r) (Some (real (res_num_units r)))\<rparr>) results"

definition set_unmodified_existing_cap :: "result_row list \<Rightarrow> result_row list" where
  "set_unmodified_existing_cap results =
     map (\<lambda>r. r\<lparr>unmodified_existing_cap_mw :=
                   nan_mul (unmodified_cap_size r) (Some (real (res_num_units r)))\<rparr>) results"

text \<open>
  Lines 2970 to 3007 of \<open>create_region_technology_clusters\<close>. With \<open>derate_capacity\<close>
  set and no list of capacity factor technologies the column \<open>unmodified_cap_size\<close>
  was never made, and reading it raises KeyError.
\<close>

definition existing_capacity :: "derate_settings \<Rightarrow> (string \<times> string option \<Rightarrow> real option) \<Rightarrow> result_row list \<Rightarrow> py_error + result_row list" where
  "existing_capacity settings capacity_factors results =
     (let results1 = set_existing_cap
            (round_results (capacity_factor_step settings capacity_factors results))
      in if derate_capacity settings
         then (if capacity_factor_techs_is_list settings
               then Inr (set_unmodified_existing_cap results1)
               else Inl (KeyError ''unmodified_cap_size''))
         else Inr results1)"

text \<open>\<open>self.all_resources.round(3)\<close> in \<open>create_all_generators\<close>.\<close>

definition all_resources_round :: "result_row list \<Rightarrow> result_row list" where
  "all_resources_round all_resources = round_results all_resources"

text \<open>A cluster of three unit groups of 1, 1 and 2 MW, used as a concrete instance.\<close>

definition example_small_units :: "clustered_unit list" where
  "example_small_units =
     [\<lparr>ug_plant_id_eia = 1, ug_unit_id_pudl = ''1_A'', capacity = 1, minimum_load_mw = 0,
       ug_heat_rate_mmbtu_mwh = Some 10, Fixed_OM_Cost_per_MWyr = Some 30,
       Var_OM_Cost_per_MWh = Some 2, cluster = 1\<rparr>,
      \<lparr>ug_plant_id_eia = 2, ug_unit_id_pudl = ''2_A'', capacity = 1, minimum_load_mw = 0,
       ug_heat_rate_mmbtu_mwh = Some 10, Fixed_OM_Cost_per_MWyr = Some 30,
       Var_OM_Cost_per_MWh = Some 2, cluster = 1\<rparr>,
      \<lparr>ug_plant_id_eia = 3, ug_unit_id_pudl = ''3_A'', capacity = 2, minimum_load_mw = 0,
       ug_heat_rate_mmbtu_mwh = Some 10, Fixed_OM_Cost_per_MWyr = Some 30,
       Var_OM_Cost_per_MWh = Some 2, cluster = 1\<rparr>]"

definition no_derating :: derate_settings where
  "no_derating =
     \<lparr>capacity_factor_techs_is_list = False, derate_capacity = False, derate_techs = []\<rparr>"

definition example_results :: "result_row list" where
  "example_results =
     (case calc_unit_cluster_values example_small_units (Some ''Small Hydroelectric'') of
        Inl e \<Rightarrow> []
      | Inr values \<Rightarrow> map (result_of_cluster ''CA_N'') values)"

subsection \<open>Fuel labels: the loop over \<open>tech_fuel_map\<close>\<close>

text \<open>
  A key of the settings dictionary is absent, or present with the value \<open>None\<close> (a
  key of the YAML file with nothing after it), or present with a value.
\<close>

datatype 'a setting = Missing | PyNone | Val 'a

datatype user_price = Price real | RegionPrices "(string \<times> real) list"

record fuel_settings =
  tech_fuel_map :: "(string \<times> string) list setting"
  eia_atb_tech_map :: "(string \<times> string list) list setting"
  aeo_fuel_scenarios :: "(string \<times> string) list setting"
  model_year_setting :: "int option"
  user_fuel_price :: "(string \<times> user_price) list setting"
  aeo_fuel_region_map :: "(string \<times> string list) list setting"

record fuel_price =
  fp_year :: int
  full_fuel_name :: string
  fp_price :: real

text \<open>
  The first loop of \<open>add_fuel_labels\<close>, with the exceptions it can raise. The
  assignments to the column \<open>Fuel\<close> raise nothing and are left out, so a round of the
  loop that goes through returns nothing.

  The \<open>try\<close> block catches the KeyError of a technology without ATB technology, or
  of settings without \<open>eia_atb_tech_map\<close>; subscripting \<open>None\<close> is a TypeError, which
  it does not catch.
\<close>

definition atb_tech_lookup :: "fuel_settings \<Rightarrow> string \<Rightarrow> py_error + unit" where
  "atb_tech_lookup settings eia_tech =
     (if eia_tech = ''Natural Gas Steam Turbine'' then Inr ()
      else (case eia_atb_tech_map settings of
              Missing \<Rightarrow> Inr ()
            | PyNone \<Rightarrow> Inl TypeError
            | Val m \<Rightarrow> Inr ()))"

text \<open>
  \<open>scenario = settings.get("aeo_fuel_scenarios", {}).get(fuel)\<close>: an absent key gives
  the empty dictionary, the value \<open>None\<close> has no method \<open>get\<close>.
\<close>

definition get_scenario :: "fuel_settings \<Rightarrow> string \<Rightarrow> py_error + string option" where
  "get_scenario settings fuel =
     (case aeo_fuel_scenarios settings of
        Missing \<Rightarrow> Inr None
      | PyNone \<Rightarrow> Inl AttributeError
      | Val m \<Rightarrow> Inr (map_of m fuel))"

text \<open>\<open>not scenario\<close>: no scenario, or the empty string.\<close>

definition falsy :: "string option \<Rightarrow> bool" where
  "falsy scenario = (case scenario of None \<Rightarrow> True | Some s \<Rightarrow> s = [])"

text \<open>
  \<open>if fuel not in settings.get("user_fuel_price", []) or []: raise KeyError(...)\<close>.
  The operator \<open>not in\<close> binds tighter than \<open>or\<close>, so the test is
  \<open>(fuel not in settings.get("user_fuel_price", [])) or []\<close>: the \<open>or []\<close> changes
  nothing, and with the value \<open>None\<close> the membership test itself raises TypeError. The
  message of the KeyError names the fuel.
\<close>

definition check_user_fuel_price :: "fuel_settings \<Rightarrow> string \<Rightarrow> py_error + unit" where
  "check_user_fuel_price settings fuel =
     (case user_fuel_price settings of
        Missing \<Rightarrow> Inl (KeyError fuel)
      | PyNone \<Rightarrow> Inl TypeError
      | Val prices \<Rightarrow> if fuel \<notin> set (map fst prices) then Inl (KeyError fuel) else Inr ())"

text \<open>
  The loop over \<open>settings["aeo_fuel_region_map"].items()\<close>: the name of the price
  series is \<open>("_").join([aeo_region, scenario, fuel])\<close>, and the assertion asks for a
  price of that series in the model year; its message names the series.
\<close>

definition fuel_name_of :: "string \<Rightarrow> string \<Rightarrow> string \<Rightarrow> string" where
  "fuel_name_of aeo_region scenario fuel = aeo_region @ ''_'' @ scenario @ ''_'' @ fuel"

definition has_price :: "fuel_price list \<Rightarrow> int \<Rightarrow> string \<Rightarrow> bool" where
  "has_price fuel_prices year name =
     list_ex (\<lambda>p. fp_year p = year \<and> full_fuel_name p = name) fuel_prices"

fun check_regions :: "fuel_price list \<Rightarrow> int \<Rightarrow> string \<Rightarrow> string \<Rightarrow> (string \<times> string list) list \<Rightarrow> py_error + unit" where
  "check_regions fuel_prices year scenario fuel [] = Inr ()"
| "check_regions fuel_prices year scenario fuel ((aeo_region, model_regions) # rest) =
     (if has_price fuel_prices year (fuel_name_of aeo_region scenario fuel)
      then check_regions fuel_prices year scenario fuel rest
      else Inl (AssertionError (fuel_name_of aeo_region scenario fuel)))"

definition check_aeo_regions :: "fuel_price list \<Rightarrow> fuel_settings \<Rightarrow> int \<Rightarrow> string \<Rightarrow> string \<Rightarrow> py_error + unit" where
  "check_aeo_regions fuel_prices settings year scenario fuel =
     (case aeo_fuel_region_map settings of
        Missing \<Rightarrow> Inl (KeyError ''aeo_fuel_region_map'')
      | PyNone \<Rightarrow> Inl AttributeError
      | Val regions \<Rightarrow> check_regions fuel_prices year scenario fuel regions)"

text \<open>One round of the loop, for the technology \<open>eia_tech\<close> and its fuel.\<close>

definition fuel_round :: "fuel_price list \<Rightarrow> fuel_settings \<Rightarrow> string \<times> string \<Rightarrow> py_error + unit" where
  "fuel_round fuel_prices settings entry =
     (case atb_tech_lookup settings (fst entry) of
        Inl e \<Rightarrow> Inl e
      | Inr u \<Rightarrow>
     (case get_scenario settings (snd entry) of
        Inl e \<Rightarrow> Inl e
      | Inr scenario \<Rightarrow>
     (case model_year_setting settings of
        None \<Rightarrow> Inl (KeyError ''model_year'')
      | Some year \<Rightarrow>
          if falsy scenario then check_user_fuel_price settings (snd entry)
          else check_aeo_regions fuel_prices settings year
                 (case scenario of None \<Rightarrow> [] | Some s \<Rightarrow> s) (snd entry))))"

fun fuel_rounds :: "fuel_price list \<Rightarrow> fuel_settings \<Rightarrow> (string \<times> string) list \<Rightarrow> py_error + unit" where
  "fuel_rounds fuel_prices settings [] = Inr ()"
| "fuel_rounds fuel_prices settings (entry # rest) =
     (case fuel_round fuel_prices settings entry of
        Inl e \<Rightarrow> Inl e
      | Inr u \<Rightarrow> fuel_rounds fuel_prices settings rest)"

text \<open>\<open>(settings.get("tech_fuel_map") or {}).items()\<close>\<close>

definition tech_fuel_items :: "fuel_settings \<Rightarrow> (string \<times> string) list" where
  "tech_fuel_items settings =
     (case tech_fuel_map settings of Missing \<Rightarrow> [] | PyNone \<Rightarrow> [] | Val m \<Rightarrow> m)"

definition add_fuel_labels_tech_loop :: "fuel_price list \<Rightarrow> fuel_settings \<Rightarrow> py_error + unit" where
  "add_fuel_labels_tech_loop fuel_prices settings =
     fuel_rounds fuel_prices settings (tech_fuel_items settings)"

text \<open>
  Settings in which biomass is the fuel of a technology, has no AEO scenario, and
  \<open>user_fuel_price\<close> is a key without a value; the same settings without that key; and
  a price table without coal prices for 2030.
\<close>

definition settings_user_price_none :: fuel_settings where
  "settings_user_price_none =
     \<lparr>tech_fuel_map = Val [(''Biomass'', ''biomass'')],
      eia_atb_tech_map = Val [],
      aeo_fuel_scenarios = Val [(''coal'', ''reference'')],
      model_year_setting = Some 2030,
      user_fuel_price = PyNone,
      aeo_fuel_region_map = Val [(''mountain'', [''WECC_AZ''])]\<rparr>"

definition settings_user_price_missing :: fuel_settings where
  "settings_user_price_missing = settings_user_price_none\<lparr>user_fuel_price := Missing\<rparr>"

definition settings_coal :: fuel_settings where
  "settings_coal =
     settings_user_price_missing\<lparr>tech_fuel_map := Val [(''Conventional Steam Coal'', ''coal'')]\<rparr>"

definition prices_2020_only :: "fuel_price list" where
  "prices_2020_only =
     [\<lparr>fp_year = 2020, full_fuel_name = ''mountain_reference_coal'', fp_price = 2\<rparr>]"

section \<open>Removal of canceled and retired generators\<close>

lemma length_create_plant_gen_id: "length (create_plant_gen_id df) = length df"
  by (simp add: create_plant_gen_id_def)

lemma fst_create_plant_gen_id: "map fst (create_plant_gen_id df) = df"
  by (simp add: create_plant_gen_id_def comp_def)

lemma length_filter_split:
  "length xs = length (filter P xs) + length (filter (\<lambda>x. \<not> P x) xs)"
  by (induction xs) auto

lemma mset_filter_split:
  "mset (map f xs) = mset (map f (filter P xs)) + mset (map f (filter (\<lambda>x. \<not> P x) xs))"
  by (induction xs) auto

lemma sum_list_filter_split:
  fixes g :: "'a \<Rightarrow> real"
  shows "sum_list (map g xs) =
         sum_list (map g (filter (\<lambda>x. \<not> P x) xs)) + sum_list (map g (filter P xs))"
  by (induction xs) auto

lemma anti_join_length:
  "length df =
   length (filter (isin_plant_gen_id other) (create_plant_gen_id df)) +
   length (drop_plant_gen_id
     (filter (\<lambda>row. \<not> isin_plant_gen_id other row) (create_plant_gen_id df)))"
  using length_filter_split
    [where xs = "create_plant_gen_id df" and P = "isin_plant_gen_id other"]
  by (simp add: drop_plant_gen_id_def length_create_plant_gen_id)

lemma anti_join_mset:
  "mset df =
   mset (drop_plant_gen_id (filter (isin_plant_gen_id other) (create_plant_gen_id df))) +
   mset (drop_plant_gen_id
     (filter (\<lambda>row. \<not> isin_plant_gen_id other row) (create_plant_gen_id df)))"
  using mset_filter_split
    [where f = fst and xs = "create_plant_gen_id df" and P = "isin_plant_gen_id other"]
  by (simp add: drop_plant_gen_id_def fst_create_plant_gen_id)

lemma anti_join_disjoint:
  "set (drop_plant_gen_id (filter (isin_plant_gen_id other) (create_plant_gen_id df))) \<inter>
   set (drop_plant_gen_id
     (filter (\<lambda>row. \<not> isin_plant_gen_id other row) (create_plant_gen_id df))) = {}"
  by (force simp: drop_plant_gen_id_def create_plant_gen_id_def isin_plant_gen_id_def)

lemma anti_join_capacity:
  "exact_sum_capacity df =
   exact_sum_capacity (drop_plant_gen_id
     (filter (\<lambda>row. \<not> isin_plant_gen_id other row) (create_plant_gen_id df))) +
   exact_sum_capacity (drop_plant_gen_id (filter (isin_plant_gen_id other) (create_plant_gen_id df)))"
proof -
  have "exact_sum_capacity df =
        sum_list (map (\<lambda>row. nan_to_zero (capacity_mw (fst row))) (create_plant_gen_id df))"
    by (simp add: exact_sum_capacity_def create_plant_gen_id_def comp_def)
  then show ?thesis
    using sum_list_filter_split
      [where g = "\<lambda>row. nan_to_zero (capacity_mw (fst row))"
         and P = "isin_plant_gen_id other" and xs = "create_plant_gen_id df"]
    by (simp add: exact_sum_capacity_def drop_plant_gen_id_def comp_def)
qed

lemma float64_exponent_numeral:
  "float64_exponent (numeral k) x e =
     (if 2 ^ 53 \<le> x then float64_exponent (pred_numeral k) (x / 2) (e + 1)
      else if x < 2 ^ 52 then float64_exponent (pred_numeral k) (x * 2) (e - 1)
      else e)"
  by (simp add: numeral_eq_Suc)

lemma float64_tenth: "float64_round (1 / 10) = 3602879701896397 / 36028797018963968"
  by (simp add: float64_round_def float64_exponent_numeral pow2_def round_half_even_def)

lemma float64_fifth: "float64_round (1 / 5) = 3602879701896397 / 18014398509481984"
  by (simp add: float64_round_def float64_exponent_numeral pow2_def round_half_even_def)

lemma float64_three_tenths: "float64_round (3 / 10) = 5404319552844595 / 18014398509481984"
  by (simp add: float64_round_def float64_exponent_numeral pow2_def round_half_even_def)

lemma float64_sum_before:
  "float64_sum [Some (3602879701896397 / 36028797018963968),
                Some (3602879701896397 / 18014398509481984),
                Some (5404319552844595 / 18014398509481984)] =
     1351079888211149 / 2251799813685248"
  by (simp add: float64_sum_def List.map_filter_simps float64_add_def float64_round_def
      float64_exponent_numeral pow2_def round_half_even_def)

lemma float64_sum_kept:
  "float64_sum [Some (3602879701896397 / 18014398509481984),
                Some (5404319552844595 / 18014398509481984)] = 1 / 2"
  by (simp add: float64_sum_def List.map_filter_simps float64_add_def float64_round_def
      float64_exponent_numeral pow2_def round_half_even_def)

lemma float64_sum_removed:
  "float64_sum [Some (3602879701896397 / 36028797018963968)] =
     3602879701896397 / 36028797018963968"
  by (simp add: float64_sum_def List.map_filter_simps float64_add_def float64_round_def
      float64_exponent_numeral pow2_def round_half_even_def)

lemma float64_kept_plus_removed:
  "float64_add (1 / 2) (3602879701896397 / 36028797018963968) =
     5404319552844595 / 9007199254740992"
  by (simp add: float64_add_def float64_round_def float64_exponent_numeral pow2_def
      round_half_even_def)

lemma three_generators_split:
  "not_canceled_df three_generators first_generator_860m = tl three_generators"
  "drop_plant_gen_id (canceled three_generators first_generator_860m) = [hd three_generators]"
  "not_retired_df three_generators first_generator_860m = tl three_generators"
  "drop_plant_gen_id (retired three_generators first_generator_860m) = [hd three_generators]"
  by (simp_all add: not_canceled_df_def canceled_def not_retired_df_def retired_def
      drop_plant_gen_id_def create_plant_gen_id_def isin_plant_gen_id_def str_int_def
      digit_char_def three_generators_def first_generator_860m_def)

lemma anti_join_capacities:
  "mset (map capacity_mw df) =
   mset (map capacity_mw (drop_plant_gen_id
     (filter (\<lambda>row. \<not> isin_plant_gen_id other row) (create_plant_gen_id df)))) +
   mset (map capacity_mw (drop_plant_gen_id
     (filter (isin_plant_gen_id other) (create_plant_gen_id df))))"
proof -
  have "mset (map capacity_mw df) = image_mset capacity_mw (mset df)"
    by simp
  also have "\<dots> = image_mset capacity_mw
      (mset (drop_plant_gen_id (filter (isin_plant_gen_id other) (create_plant_gen_id df))) +
       mset (drop_plant_gen_id
         (filter (\<lambda>row. \<not> isin_plant_gen_id other row) (create_plant_gen_id df))))"
    using anti_join_mset [of df other] by simp
  finally show ?thesis
    by (simp add: add.commute)
qed

text \<open>
  Claim C6, as amended. For every generator table and every amendment table, the rows
  that \<open>remove_canceled_860m\<close> and \<open>remove_retired_860m\<close> remove and the rows they
  keep are disjoint and together make up the original table: the assertion of the
  source never fails, the function returns the kept rows, the row counts add up, the
  kept and the removed rows together are the original rows (as a multiset), and no row
  is on both sides. The capacities of the kept rows and of the removed rows together
  are the capacities of the original rows, so in exact arithmetic the capacity before
  the removal is the capacity of the kept rows plus the capacity of the removed rows.
  The totals that the program computes in float64 are rounded sums and need not agree
  in the last place.
\<close>

theorem removal_is_partition:
  "remove_canceled_860m df canceled_860m = Inr (not_canceled_df df canceled_860m) \<and>
   length df = length (canceled df canceled_860m) + length (not_canceled_df df canceled_860m) \<and>
   mset df = mset (drop_plant_gen_id (canceled df canceled_860m)) +
             mset (not_canceled_df df canceled_860m) \<and>
   set (drop_plant_gen_id (canceled df canceled_860m)) \<inter>
     set (not_canceled_df df canceled_860m) = {} \<and>
   mset (map capacity_mw df) =
     mset (map capacity_mw (not_canceled_df df canceled_860m)) +
     mset (map capacity_mw (drop_plant_gen_id (canceled df canceled_860m))) \<and>
   exact_sum_capacity df = exact_sum_capacity (not_canceled_df df canceled_860m) +
                     exact_sum_capacity (drop_plant_gen_id (canceled df canceled_860m)) \<and>
   remove_retired_860m df retired_860m = Inr (not_retired_df df retired_860m) \<and>
   length df = length (retired df retired_860m) + length (not_retired_df df retired_860m) \<and>
   mset df = mset (drop_plant_gen_id (retired df retired_860m)) +
             mset (not_retired_df df retired_860m) \<and>
   set (drop_plant_gen_id (retired df retired_860m)) \<inter>
     set (not_retired_df df retired_860m) = {} \<and>
   mset (map capacity_mw df) =
     mset (map capacity_mw (not_retired_df df retired_860m)) +
     mset (map capacity_mw (drop_plant_gen_id (retired df retired_860m))) \<and>
   exact_sum_capacity df = exact_sum_capacity (not_retired_df df retired_860m) +
                     exact_sum_capacity (drop_plant_gen_id (retired df retired_860m))"
proof -
  have c_len: "length df =
      length (canceled df canceled_860m) + length (not_canceled_df df canceled_860m)"
    unfolding canceled_def not_canceled_df_def by (rule anti_join_length)
  have r_len: "length df =
      length (retired df retired_860m) + length (not_retired_df df retired_860m)"
    unfolding retired_def not_retired_df_def by (rule anti_join_length)
  have c_ret: "remove_canceled_860m df canceled_860m = Inr (not_canceled_df df canceled_860m)"
    using c_len by (simp add: remove_canceled_860m_def length_create_plant_gen_id)
  have r_ret: "remove_retired_860m df retired_860m = Inr (not_retired_df df retired_860m)"
    using r_len by (simp add: remove_retired_860m_def length_create_plant_gen_id)
  have c_mset: "mset df = mset (drop_plant_gen_id (canceled df canceled_860m)) +
                          mset (not_canceled_df df canceled_860m)"
    unfolding canceled_def not_canceled_df_def by (rule anti_join_mset)
  have r_mset: "mset df = mset (drop_plant_gen_id (retired df retired_860m)) +
                          mset (not_retired_df df retired_860m)"
    unfolding retired_def not_retired_df_def by (rule anti_join_mset)
  have c_dis: "set (drop_plant_gen_id (canceled df canceled_860m)) \<inter>
               set (not_canceled_df df canceled_860m) = {}"
    unfolding canceled_def not_canceled_df_def by (rule anti_join_disjoint)
  have r_dis: "set (drop_plant_gen_id (retired df retired_860m)) \<inter>
               set (not_retired_df df retired_860m) = {}"
    unfolding retired_def not_retired_df_def by (rule anti_join_disjoint)
  have c_caps: "mset (map capacity_mw df) =
       mset (map capacity_mw (not_canceled_df df canceled_860m)) +
       mset (map capacity_mw (drop_plant_gen_id (canceled df canceled_860m)))"
    unfolding canceled_def not_canceled_df_def by (rule anti_join_capacities)
  have r_caps: "mset (map capacity_mw df) =
       mset (map capacity_mw (not_retired_df df retired_860m)) +
       mset (map capacity_mw (drop_plant_gen_id (retired df retired_860m)))"
    unfolding retired_def not_retired_df_def by (rule anti_join_capacities)
  have c_cap: "exact_sum_capacity df = exact_sum_capacity (not_canceled_df df canceled_860m) +
                 exact_sum_capacity (drop_plant_gen_id (canceled df canceled_860m))"
    unfolding canceled_def not_canceled_df_def by (rule anti_join_capacity)
  have r_cap: "exact_sum_capacity df = exact_sum_capacity (not_retired_df df retired_860m) +
                 exact_sum_capacity (drop_plant_gen_id (retired df retired_860m))"
    unfolding retired_def not_retired_df_def by (rule anti_join_capacity)
  from c_ret c_len c_mset c_dis c_caps c_cap r_ret r_len r_mset r_dis r_caps r_cap
  show ?thesis
    by blast
qed

text \<open>
  The claim as it was stated fails for the float64 totals: for generators of 0.1, 0.2
  and 0.3 MW of which the first is removed, the total before the removal is
  0.6000000000000001 (the float64 above 0.6), the kept rows total 0.5, the removed row
  0.1, and their float64 sum is 0.6.
\<close>

theorem float64_capacity_total_counterexample:
  "float64_sum_capacity three_generators = 1351079888211149 / 2251799813685248 \<and>
   float64_add (float64_sum_capacity (not_canceled_df three_generators first_generator_860m))
     (float64_sum_capacity (drop_plant_gen_id (canceled three_generators first_generator_860m))) =
     5404319552844595 / 9007199254740992 \<and>
   float64_sum_capacity three_generators \<noteq>
     float64_add (float64_sum_capacity (not_canceled_df three_generators first_generator_860m))
       (float64_sum_capacity (drop_plant_gen_id (canceled three_generators first_generator_860m))) \<and>
   float64_sum_capacity three_generators \<noteq>
     float64_add (float64_sum_capacity (not_retired_df three_generators first_generator_860m))
       (float64_sum_capacity (drop_plant_gen_id (retired three_generators first_generator_860m)))"
proof -
  have before: "float64_sum_capacity three_generators = 1351079888211149 / 2251799813685248"
    by (simp add: float64_sum_capacity_def three_generators_def float64_tenth float64_fifth
        float64_three_tenths float64_sum_before)
  have kept: "float64_sum_capacity (tl three_generators) = 1 / 2"
    by (simp add: float64_sum_capacity_def three_generators_def float64_fifth
        float64_three_tenths float64_sum_kept)
  have removed: "float64_sum_capacity [hd three_generators] =
      3602879701896397 / 36028797018963968"
    by (simp add: float64_sum_capacity_def three_generators_def float64_tenth
        float64_sum_removed)
  have after: "float64_add (float64_sum_capacity (tl three_generators))
      (float64_sum_capacity [hd three_generators]) = 5404319552844595 / 9007199254740992"
    by (simp only: kept removed float64_kept_plus_removed)
  have differ: "(1351079888211149 / 2251799813685248 :: real) \<noteq>
      5404319552844595 / 9007199254740992"
    by simp
  show ?thesis
    by (simp only: three_generators_split before after) (simp only: differ simp_thms)
qed

text \<open>
  Claim C9. \<open>remove_retired_860m\<close> and \<open>remove_future_retirements_860m\<close> return the
  same result on every pair of input tables.
\<close>

theorem remove_retired_eq_remove_future_retirements:
  "remove_retired_860m df retired_860m = remove_future_retirements_860m df retired_860m"
  by (simp add: remove_retired_860m_def remove_future_retirements_860m_def
      retired_def future_retired_def not_retired_df_def future_not_retired_df_def)

section \<open>Heat rates: banding and fallback\<close>

lemma loc_assign_map:
  "loc_assign sel (map f (filter sel t)) t =
   map (\<lambda>r. if sel r then r\<lparr>heat_rate_mmbtu_mwh := f r\<rparr> else r) t"
  by (induction t) auto

lemma upd_same: "heat_rate_mmbtu_mwh r = v \<Longrightarrow> r\<lparr>heat_rate_mmbtu_mwh := v\<rparr> = r"
  by auto

lemma fill_na_heat_rates_eq:
  "fill_na_heat_rates s = fillna (series_median s) s"
proof (cases "list_ex (\<lambda>v. v = None) s")
  case True then show ?thesis by (simp add: fill_na_heat_rates_def)
next
  case False
  then have "None \<notin> set s" by (auto simp: list_ex_iff)
  then have "fillna m s = s" for m
    by (induction s) (auto simp: fillna_def split: option.splits)
  with False show ?thesis by (simp add: fill_na_heat_rates_def)
qed

lemma fill_tech_map:
  "fill_tech tech t =
   map (\<lambda>r. if tech_eq (technology_description r) tech then fill_row (tech_median tech t) r else r) t"
proof -
  let ?sel = "\<lambda>r. tech_eq (technology_description r) tech"
  let ?m = "tech_median tech t"
  have "fill_na_heat_rates (map heat_rate_mmbtu_mwh (filter ?sel t)) =
        map (\<lambda>r. case heat_rate_mmbtu_mwh r of None \<Rightarrow> ?m | Some x \<Rightarrow> Some x) (filter ?sel t)"
    by (simp add: fill_na_heat_rates_eq fillna_def tech_median_def comp_def
        cong: option.case_cong)
  then have "fill_tech tech t =
     map (\<lambda>r. if ?sel r then r\<lparr>heat_rate_mmbtu_mwh :=
        (case heat_rate_mmbtu_mwh r of None \<Rightarrow> ?m | Some x \<Rightarrow> Some x)\<rparr> else r) t"
    by (simp add: fill_tech_def loc_assign_map)
  also have "\<dots> = map (\<lambda>r. if ?sel r then fill_row ?m r else r) t"
    by (rule map_cong) (auto simp: fill_row_def split: option.splits)
  finally show ?thesis .
qed

lemma dropna_Nil: "dropna s = [] \<longleftrightarrow> (\<forall>v\<in>set s. v = None)"
  by (induction s) (auto simp: dropna_def List.map_filter_simps split: option.splits)

lemma series_median_None: "series_median s = None \<longleftrightarrow> (\<forall>v\<in>set s. v = None)"
proof -
  have "sort (dropna s) = [] \<longleftrightarrow> dropna s = []"
    by (metis length_sort length_0_conv)
  moreover have "(if b then None else if c then Some x else Some y) = None \<longleftrightarrow> b"
    for b c and x y :: real
    by simp
  ultimately have "series_median s = None \<longleftrightarrow> dropna s = []"
    unfolding series_median_def Let_def by (simp only: length_0_conv)
  then show ?thesis
    using dropna_Nil [of s] by simp
qed

lemma tech_fill_row [simp]: "technology_description (fill_row m r) = technology_description r"
  by (simp add: fill_row_def)

lemma fill_row_idem:
  "(m0 = None \<Longrightarrow> m1 = None) \<Longrightarrow> fill_row m1 (fill_row m0 r) = fill_row m0 r"
  by (cases m0) (auto simp: fill_row_def)

lemma fill_row_None [simp]: "fill_row None r = r"
  by (simp add: fill_row_def)

lemma tech_eq_None [simp]: "\<not> tech_eq a None" "\<not> tech_eq None b"
  by (auto simp: tech_eq_def split: option.splits)

lemma tech_eq_Some [simp]: "tech_eq a (Some c) \<longleftrightarrow> a = Some c"
  by (auto simp: tech_eq_def split: option.splits)

lemma tech_median_None_tech [simp]: "tech_median None t = None"
  by (simp add: tech_median_def series_median_def dropna_def List.map_filter_simps)

lemma tech_median_fill_where_done:
  assumes "P (Some c)"
  shows "tech_median (Some c) t0 = None \<Longrightarrow> tech_median (Some c) (fill_where P t0) = None"
proof -
  assume m0: "tech_median (Some c) t0 = None"
  then have allnone: "\<forall>r\<in>set t0. technology_description r = Some c \<longrightarrow> heat_rate_mmbtu_mwh r = None"
    by (auto simp: tech_median_def series_median_None)
  have "\<forall>r\<in>set (fill_where P t0). technology_description r = Some c \<longrightarrow> heat_rate_mmbtu_mwh r = None"
    using allnone m0 assms by (auto simp: fill_where_def fill_row_def)
  then show ?thesis
    by (auto simp: tech_median_def series_median_None)
qed

lemma tech_median_fill_where_other:
  assumes "\<not> P (Some c)"
  shows "tech_median (Some c) (fill_where P t0) = tech_median (Some c) t0"
proof -
  let ?F = "\<lambda>r. if P (technology_description r)
              then fill_row (tech_median (technology_description r) t0) r else r"
  let ?Q = "\<lambda>r::'a unit_row_scheme. technology_description r = Some c"
  have "filter ?Q (map ?F t0) = map ?F (filter (?Q \<circ> ?F) t0)"
    by (rule filter_map)
  also have "?Q \<circ> ?F = ?Q"
    by (auto simp: fun_eq_iff)
  finally have "map heat_rate_mmbtu_mwh (filter ?Q (map ?F t0)) =
        map (heat_rate_mmbtu_mwh \<circ> ?F) (filter ?Q t0)"
    by simp
  also have "\<dots> = map heat_rate_mmbtu_mwh (filter ?Q t0)"
    by (rule map_cong) (use assms in auto)
  finally show ?thesis by (simp add: tech_median_def fill_where_def)
qed

lemma map_fill_where:
  "map G (fill_where P t0) =
   map (\<lambda>r. G (if P (technology_description r)
                 then fill_row (tech_median (technology_description r) t0) r else r)) t0"
  by (simp add: fill_where_def comp_def)

lemma fill_tech_fill_where:
  "fill_tech tech (fill_where P t0) = fill_where (\<lambda>x. P x \<or> (x = tech \<and> tech \<noteq> None)) t0"
proof (cases tech)
  case None
  then show ?thesis by (simp add: fill_tech_map fill_where_def)
next
  case (Some c)
  show ?thesis
  proof (cases "P (Some c)")
    case True
    let ?m1 = "tech_median (Some c) (fill_where P t0)"
    let ?m0 = "tech_median (Some c) t0"
    have idem: "fill_row ?m1 (fill_row ?m0 r) = fill_row ?m0 r" for r :: "'a unit_row_scheme"
      using tech_median_fill_where_done [of P c t0] True by (intro fill_row_idem) simp
    have "fill_tech tech (fill_where P t0) =
          map (\<lambda>r. if technology_description r = Some c then fill_row ?m1 r else r) (fill_where P t0)"
      by (simp add: fill_tech_map Some)
    also have "\<dots> = map (\<lambda>r. if (P (technology_description r) \<or>
                              (technology_description r = tech \<and> tech \<noteq> None))
                     then fill_row (tech_median (technology_description r) t0) r else r) t0"
      unfolding map_fill_where
      by (rule map_cong) (auto simp: True Some idem)
    also have "\<dots> = fill_where (\<lambda>x. P x \<or> (x = tech \<and> tech \<noteq> None)) t0"
      by (simp add: fill_where_def)
    finally show ?thesis .
  next
    case False
    have m: "tech_median (Some c) (fill_where P t0) = tech_median (Some c) t0"
      using tech_median_fill_where_other [of P c t0] False by simp
    have "fill_tech tech (fill_where P t0) =
          map (\<lambda>r. if technology_description r = Some c
                   then fill_row (tech_median (Some c) t0) r else r) (fill_where P t0)"
      by (simp add: fill_tech_map Some m)
    also have "\<dots> = map (\<lambda>r. if (P (technology_description r) \<or>
                              (technology_description r = tech \<and> tech \<noteq> None))
                     then fill_row (tech_median (technology_description r) t0) r else r) t0"
      unfolding map_fill_where
      by (rule map_cong) (auto simp: False Some)
    also have "\<dots> = fill_where (\<lambda>x. P x \<or> (x = tech \<and> tech \<noteq> None)) t0"
      by (simp add: fill_where_def)
    finally show ?thesis .
  qed
qed

lemma foldl_fill_tech:
  "foldl (\<lambda>t tech. fill_tech tech t) (fill_where P t0) techs =
   fill_where (\<lambda>x. P x \<or> (x \<in> set techs \<and> x \<noteq> None)) t0"
proof (induction techs arbitrary: P)
  case Nil
  then show ?case by simp
next
  case (Cons a techs)
  have "(\<lambda>x. (P x \<or> x = a \<and> a \<noteq> None) \<or> x \<in> set techs \<and> x \<noteq> None) =
        (\<lambda>x. P x \<or> x \<in> set (a # techs) \<and> x \<noteq> None)"
    by auto
  then show ?case
    by (simp add: fill_tech_fill_where Cons.IH)
qed

lemma fill_where_False: "fill_where (\<lambda>_. False) t0 = t0"
  by (simp add: fill_where_def)

lemma fill_all_techs_map:
  "fill_all_techs t =
   map (\<lambda>r. fill_row (tech_median (technology_description r) t) r) t"
proof -
  have "fill_all_techs t =
        fill_where (\<lambda>x. x \<in> set (map technology_description t) \<and> x \<noteq> None) t"
    using foldl_fill_tech [of "\<lambda>_. False" t "map technology_description t"]
    by (simp add: fill_all_techs_def fill_where_False)
  also have "\<dots> = map (\<lambda>r. fill_row (tech_median (technology_description r) t) r) t"
    unfolding fill_where_def
    by (rule map_cong) auto
  finally show ?thesis .
qed

lemma band_heat_rates_map:
  "band_heat_rates pm t = map (\<lambda>r. r\<lparr>heat_rate_mmbtu_mwh := banded_value pm r\<rparr>) t"
  unfolding band_heat_rates_def reset_out_of_band_def assign_above_35_from_map_def
    assign_null_from_map_def map_map
  by (rule map_cong) (auto simp: banded_value_def Let_def)

lemma assign_heat_rates_nth:
  assumes "i < length t"
  shows "heat_rate_mmbtu_mwh (assign_heat_rates pm t ! i) =
         (case heat_rate_mmbtu_mwh (band_heat_rates pm t ! i) of
            None \<Rightarrow> tech_median (technology_description (t ! i)) (band_heat_rates pm t)
          | Some h \<Rightarrow> Some h)"
proof -
  have len: "i < length (band_heat_rates pm t)"
    using assms by (simp add: band_heat_rates_map)
  have td: "technology_description (band_heat_rates pm t ! i) = technology_description (t ! i)"
    using assms by (simp add: band_heat_rates_map)
  show ?thesis
    using len td by (simp add: assign_heat_rates_def fill_all_techs_map fill_row_def split: option.splits)
qed

lemma band_heat_rates_nth:
  "i < length t \<Longrightarrow> heat_rate_mmbtu_mwh (band_heat_rates pm t ! i) = banded_value pm (t ! i)"
  by (simp add: band_heat_rates_map)

lemma reset_out_of_band_nth:
  "j < length u \<Longrightarrow> heat_rate_mmbtu_mwh (reset_out_of_band u ! j) =
     (case heat_rate_mmbtu_mwh (u ! j) of None \<Rightarrow> None
      | Some h \<Rightarrow> if valid_heat_rate h then Some h else None)"
  by (auto simp: reset_out_of_band_def valid_heat_rate_def nan_lt_def nan_gt_def nan_ne_def
      split: option.splits)

text \<open>
  Claim C1. For every row of the units table: a heat rate of exactly 0 is kept as 0 by
  the banding and by the fill; a heat rate between 5 and 35 (bounds included) is kept;
  a heat rate below 5 other than 0 is missing after the banding and is then the median
  of its technology; a heat rate above 35 is replaced by the value of the
  plant/prime-mover/fuel dictionary when that value is 0 or within 5 and 35, and is
  missing after the banding and then the median of its technology otherwise. After
  the banding every heat rate that is left is 0 or within 5 and 35, and the reset step
  maps a value outside the band to missing and keeps every other value.
\<close>

theorem heat_rate_banding:
  assumes "i < length units_model"
  shows "(heat_rate_mmbtu_mwh (units_model ! i) = Some 0 \<longrightarrow>
            heat_rate_mmbtu_mwh (band_heat_rates prime_mover_hr_map units_model ! i) = Some 0 \<and>
            heat_rate_mmbtu_mwh (assign_heat_rates prime_mover_hr_map units_model ! i) = Some 0) \<and>
         (\<forall>h. heat_rate_mmbtu_mwh (units_model ! i) = Some h \<and> 5 \<le> h \<and> h \<le> 35 \<longrightarrow>
            heat_rate_mmbtu_mwh (band_heat_rates prime_mover_hr_map units_model ! i) = Some h \<and>
            heat_rate_mmbtu_mwh (assign_heat_rates prime_mover_hr_map units_model ! i) = Some h) \<and>
         (\<forall>h. heat_rate_mmbtu_mwh (units_model ! i) = Some h \<and> h < 5 \<and> h \<noteq> 0 \<longrightarrow>
            heat_rate_mmbtu_mwh (band_heat_rates prime_mover_hr_map units_model ! i) = None \<and>
            heat_rate_mmbtu_mwh (assign_heat_rates prime_mover_hr_map units_model ! i) =
              tech_median (technology_description (units_model ! i))
                (band_heat_rates prime_mover_hr_map units_model)) \<and>
         (\<forall>h. heat_rate_mmbtu_mwh (units_model ! i) = Some h \<and> 35 < h \<longrightarrow>
            heat_rate_mmbtu_mwh (band_heat_rates prime_mover_hr_map units_model ! i) =
              (case prime_mover_hr_map (idx (units_model ! i)) of
                 None \<Rightarrow> None
               | Some m \<Rightarrow> if valid_heat_rate m then Some m else None) \<and>
            heat_rate_mmbtu_mwh (assign_heat_rates prime_mover_hr_map units_model ! i) =
              (case prime_mover_hr_map (idx (units_model ! i)) of
                 None \<Rightarrow> tech_median (technology_description (units_model ! i))
                           (band_heat_rates prime_mover_hr_map units_model)
               | Some m \<Rightarrow> if valid_heat_rate m then Some m
                           else tech_median (technology_description (units_model ! i))
                                  (band_heat_rates prime_mover_hr_map units_model))) \<and>
         (\<forall>h. heat_rate_mmbtu_mwh (band_heat_rates prime_mover_hr_map units_model ! i) = Some h \<longrightarrow>
            valid_heat_rate h) \<and>
         heat_rate_mmbtu_mwh (reset_out_of_band units_model ! i) =
           (case heat_rate_mmbtu_mwh (units_model ! i) of
              None \<Rightarrow> None
            | Some h \<Rightarrow> if valid_heat_rate h then Some h else None)"
proof -
  note nth = assign_heat_rates_nth [OF assms, of prime_mover_hr_map]
    band_heat_rates_nth [OF assms, of prime_mover_hr_map]
  have zero: "heat_rate_mmbtu_mwh (units_model ! i) = Some 0 \<longrightarrow>
            heat_rate_mmbtu_mwh (band_heat_rates prime_mover_hr_map units_model ! i) = Some 0 \<and>
            heat_rate_mmbtu_mwh (assign_heat_rates prime_mover_hr_map units_model ! i) = Some 0"
    by (simp add: nth banded_value_def nan_lt_def nan_gt_def nan_ne_def)
  have keep: "\<forall>h. heat_rate_mmbtu_mwh (units_model ! i) = Some h \<and> 5 \<le> h \<and> h \<le> 35 \<longrightarrow>
            heat_rate_mmbtu_mwh (band_heat_rates prime_mover_hr_map units_model ! i) = Some h \<and>
            heat_rate_mmbtu_mwh (assign_heat_rates prime_mover_hr_map units_model ! i) = Some h"
    by (simp add: nth banded_value_def nan_lt_def nan_gt_def nan_ne_def)
  have low: "\<forall>h. heat_rate_mmbtu_mwh (units_model ! i) = Some h \<and> h < 5 \<and> h \<noteq> 0 \<longrightarrow>
            heat_rate_mmbtu_mwh (band_heat_rates prime_mover_hr_map units_model ! i) = None \<and>
            heat_rate_mmbtu_mwh (assign_heat_rates prime_mover_hr_map units_model ! i) =
              tech_median (technology_description (units_model ! i))
                (band_heat_rates prime_mover_hr_map units_model)"
    by (simp add: nth banded_value_def nan_lt_def nan_gt_def nan_ne_def)
  have high: "\<forall>h. heat_rate_mmbtu_mwh (units_model ! i) = Some h \<and> 35 < h \<longrightarrow>
            heat_rate_mmbtu_mwh (band_heat_rates prime_mover_hr_map units_model ! i) =
              (case prime_mover_hr_map (idx (units_model ! i)) of
                 None \<Rightarrow> None
               | Some m \<Rightarrow> if valid_heat_rate m then Some m else None) \<and>
            heat_rate_mmbtu_mwh (assign_heat_rates prime_mover_hr_map units_model ! i) =
              (case prime_mover_hr_map (idx (units_model ! i)) of
                 None \<Rightarrow> tech_median (technology_description (units_model ! i))
                           (band_heat_rates prime_mover_hr_map units_model)
               | Some m \<Rightarrow> if valid_heat_rate m then Some m
                           else tech_median (technology_description (units_model ! i))
                                  (band_heat_rates prime_mover_hr_map units_model))"
    by (auto simp: nth banded_value_def nan_lt_def nan_gt_def nan_ne_def valid_heat_rate_def
        split: option.splits)
  have band: "\<forall>h. heat_rate_mmbtu_mwh (band_heat_rates prime_mover_hr_map units_model ! i) = Some h \<longrightarrow>
            valid_heat_rate h"
    by (auto simp: nth banded_value_def Let_def nan_lt_def nan_gt_def nan_ne_def valid_heat_rate_def
        split: option.splits if_splits)
  have reset: "heat_rate_mmbtu_mwh (reset_out_of_band units_model ! i) =
           (case heat_rate_mmbtu_mwh (units_model ! i) of
              None \<Rightarrow> None
            | Some h \<Rightarrow> if valid_heat_rate h then Some h else None)"
    by (rule reset_out_of_band_nth [OF assms])
  from zero keep low high band reset show ?thesis by blast
qed

lemma example_tech_median:
  "tech_median (Some ''Conventional Steam Coal'') (band_heat_rates example_hr_map example_units) =
     Some (43 / 4)"
  by (simp add: tech_median_def series_median_def dropna_def List.map_filter_simps
      band_heat_rates_map banded_value_def example_units_def example_hr_map_def
      nan_lt_def nan_gt_def nan_ne_def)

theorem heat_rate_banding_witness:
  "heat_rate_mmbtu_mwh (example_units ! 0) = Some 0 \<and>
   heat_rate_mmbtu_mwh (assign_heat_rates example_hr_map example_units ! 0) = Some 0 \<and>
   heat_rate_mmbtu_mwh (example_units ! Suc 0) = Some 5 \<and>
   heat_rate_mmbtu_mwh (assign_heat_rates example_hr_map example_units ! Suc 0) = Some 5 \<and>
   heat_rate_mmbtu_mwh (example_units ! 2) = Some 35 \<and>
   heat_rate_mmbtu_mwh (assign_heat_rates example_hr_map example_units ! 2) = Some 35 \<and>
   heat_rate_mmbtu_mwh (example_units ! 3) = Some 3 \<and>
   heat_rate_mmbtu_mwh (band_heat_rates example_hr_map example_units ! 3) = None \<and>
   heat_rate_mmbtu_mwh (assign_heat_rates example_hr_map example_units ! 3) = Some (43 / 4) \<and>
   heat_rate_mmbtu_mwh (example_units ! 4) = Some 40 \<and>
   heat_rate_mmbtu_mwh (band_heat_rates example_hr_map example_units ! 4) = None \<and>
   heat_rate_mmbtu_mwh (assign_heat_rates example_hr_map example_units ! 4) = Some (43 / 4)"
proof -
  have len: "0 < length example_units" "2 < length example_units"
    "3 < length example_units" "4 < length example_units"
    by (simp_all add: example_units_def)
  have raw0: "heat_rate_mmbtu_mwh (example_units ! 0) = Some 0"
    by (simp add: example_units_def)
  have raw2: "heat_rate_mmbtu_mwh (example_units ! 2) = Some 35"
    by (simp add: example_units_def)
  have raw3: "heat_rate_mmbtu_mwh (example_units ! 3) = Some 3"
    by (simp add: example_units_def)
  have raw4: "heat_rate_mmbtu_mwh (example_units ! 4) = Some 40"
    by (simp add: example_units_def)
  have tech3: "technology_description (example_units ! 3) = Some ''Conventional Steam Coal''"
    by (simp add: example_units_def)
  have tech4: "technology_description (example_units ! 4) = Some ''Conventional Steam Coal''"
    by (simp add: example_units_def)
  have pm4: "example_hr_map (idx (example_units ! 4)) = Some 50"
    by (simp add: example_units_def example_hr_map_def)
  have inv50: "\<not> valid_heat_rate 50"
    by (simp add: valid_heat_rate_def)
  have out0: "heat_rate_mmbtu_mwh (assign_heat_rates example_hr_map example_units ! 0) = Some 0"
    using heat_rate_banding [OF len(1), of example_hr_map] raw0 by blast
  have len1: "Suc 0 < length example_units"
    by (simp add: example_units_def)
  have raw1: "heat_rate_mmbtu_mwh (example_units ! Suc 0) = Some 5"
    by (simp add: example_units_def)
  have "(5::real) \<le> 5 \<and> (5::real) \<le> 35"
    by simp
  then have out1: "heat_rate_mmbtu_mwh (assign_heat_rates example_hr_map example_units ! Suc 0) = Some 5"
    using heat_rate_banding [OF len1, of example_hr_map] raw1 by blast
  have "(5::real) \<le> 35 \<and> (35::real) \<le> 35"
    by simp
  then have out2: "heat_rate_mmbtu_mwh (assign_heat_rates example_hr_map example_units ! 2) = Some 35"
    using heat_rate_banding [OF len(2), of example_hr_map] raw2 by blast
  have "(3::real) < 5 \<and> (3::real) \<noteq> 0"
    by simp
  then have out3: "heat_rate_mmbtu_mwh (band_heat_rates example_hr_map example_units ! 3) = None \<and>
      heat_rate_mmbtu_mwh (assign_heat_rates example_hr_map example_units ! 3) =
        tech_median (technology_description (example_units ! 3))
          (band_heat_rates example_hr_map example_units)"
    using heat_rate_banding [OF len(3), of example_hr_map] raw3 by blast
  have "(35::real) < 40"
    by simp
  then have "heat_rate_mmbtu_mwh (band_heat_rates example_hr_map example_units ! 4) =
        (case example_hr_map (idx (example_units ! 4)) of
           None \<Rightarrow> None
         | Some m \<Rightarrow> if valid_heat_rate m then Some m else None) \<and>
      heat_rate_mmbtu_mwh (assign_heat_rates example_hr_map example_units ! 4) =
        (case example_hr_map (idx (example_units ! 4)) of
           None \<Rightarrow> tech_median (technology_description (example_units ! 4))
                     (band_heat_rates example_hr_map example_units)
         | Some m \<Rightarrow> if valid_heat_rate m then Some m
                     else tech_median (technology_description (example_units ! 4))
                            (band_heat_rates example_hr_map example_units))"
    using heat_rate_banding [OF len(4), of example_hr_map] raw4 by blast
  then have out4: "heat_rate_mmbtu_mwh (band_heat_rates example_hr_map example_units ! 4) = None \<and>
      heat_rate_mmbtu_mwh (assign_heat_rates example_hr_map example_units ! 4) =
        tech_median (technology_description (example_units ! 4))
          (band_heat_rates example_hr_map example_units)"
    by (simp add: pm4 inv50)
  show ?thesis
    using raw0 out0 raw1 out1 raw2 out2 raw3 out3 raw4 out4
    by (simp add: tech3 tech4 example_tech_median)
qed

text \<open>
  Claim C2. For every row of the units table without a unit-level heat rate: when the
  plant/prime-mover/fuel dictionary has a value for the row that is 0 or within 5 and
  35, the heat rate of the row is that value (a value of 10.5 gives 10.5); when the
  dictionary has no value for the row, or a value outside the band, the heat rate is
  the median of the heat rates present, after the banding, in the rows of the same
  technology.
\<close>

theorem heat_rate_fallback_chain:
  assumes "i < length units_model"
    and "heat_rate_mmbtu_mwh (units_model ! i) = None"
  shows "(\<forall>m. prime_mover_hr_map (idx (units_model ! i)) = Some m \<and> valid_heat_rate m \<longrightarrow>
            heat_rate_mmbtu_mwh (assign_heat_rates prime_mover_hr_map units_model ! i) = Some m) \<and>
         (prime_mover_hr_map (idx (units_model ! i)) = None \<or>
          (\<exists>m. prime_mover_hr_map (idx (units_model ! i)) = Some m \<and> \<not> valid_heat_rate m) \<longrightarrow>
            heat_rate_mmbtu_mwh (assign_heat_rates prime_mover_hr_map units_model ! i) =
              series_median
                (map heat_rate_mmbtu_mwh
                   (filter (\<lambda>r. tech_eq (technology_description r)
                                  (technology_description (units_model ! i)))
                      (band_heat_rates prime_mover_hr_map units_model))))"
proof -
  note nth = assign_heat_rates_nth [OF assms(1), of prime_mover_hr_map]
    band_heat_rates_nth [OF assms(1), of prime_mover_hr_map]
  have a: "\<forall>m. prime_mover_hr_map (idx (units_model ! i)) = Some m \<and> valid_heat_rate m \<longrightarrow>
            heat_rate_mmbtu_mwh (assign_heat_rates prime_mover_hr_map units_model ! i) = Some m"
    using assms(2)
    by (auto simp: nth banded_value_def nan_lt_def nan_gt_def nan_ne_def valid_heat_rate_def)
  have b: "prime_mover_hr_map (idx (units_model ! i)) = None \<or>
          (\<exists>m. prime_mover_hr_map (idx (units_model ! i)) = Some m \<and> \<not> valid_heat_rate m) \<longrightarrow>
            heat_rate_mmbtu_mwh (assign_heat_rates prime_mover_hr_map units_model ! i) =
              tech_median (technology_description (units_model ! i))
                (band_heat_rates prime_mover_hr_map units_model)"
    using assms(2)
    by (auto simp: nth banded_value_def nan_lt_def nan_gt_def nan_ne_def valid_heat_rate_def)
  from a b show ?thesis
    unfolding tech_median_def by blast
qed

theorem heat_rate_fallback_chain_witness:
  "heat_rate_mmbtu_mwh (example_units ! 5) = None \<and>
   example_hr_map (idx (example_units ! 5)) = Some (21 / 2) \<and>
   heat_rate_mmbtu_mwh (assign_heat_rates example_hr_map example_units ! 5) = Some (21 / 2) \<and>
   heat_rate_mmbtu_mwh (example_units ! 6) = None \<and>
   example_hr_map (idx (example_units ! 6)) = None \<and>
   heat_rate_mmbtu_mwh (assign_heat_rates example_hr_map example_units ! 6) = Some (43 / 4)"
proof -
  have len: "5 < length example_units" "6 < length example_units"
    by (simp_all add: example_units_def)
  have raw5: "heat_rate_mmbtu_mwh (example_units ! 5) = None"
    by (simp add: example_units_def)
  have raw6: "heat_rate_mmbtu_mwh (example_units ! 6) = None"
    by (simp add: example_units_def)
  have tech6: "technology_description (example_units ! 6) = Some ''Conventional Steam Coal''"
    by (simp add: example_units_def)
  have pm5: "example_hr_map (idx (example_units ! 5)) = Some (21 / 2)"
    by (simp add: example_units_def example_hr_map_def)
  have pm6: "example_hr_map (idx (example_units ! 6)) = None"
    by (simp add: example_units_def example_hr_map_def)
  have valid: "valid_heat_rate (21 / 2)"
    by (simp add: valid_heat_rate_def)
  have out5: "heat_rate_mmbtu_mwh (assign_heat_rates example_hr_map example_units ! 5) = Some (21 / 2)"
    using heat_rate_fallback_chain [OF len(1) raw5, of example_hr_map] pm5 valid by blast
  have "heat_rate_mmbtu_mwh (assign_heat_rates example_hr_map example_units ! 6) =
          series_median
            (map heat_rate_mmbtu_mwh
               (filter (\<lambda>r. tech_eq (technology_description r)
                              (technology_description (example_units ! 6)))
                  (band_heat_rates example_hr_map example_units)))"
    using heat_rate_fallback_chain [OF len(2) raw6, of example_hr_map] pm6 by blast
  then have out6: "heat_rate_mmbtu_mwh (assign_heat_rates example_hr_map example_units ! 6) = Some (43 / 4)"
    using example_tech_median by (simp add: tech6 tech_median_def)
  show ?thesis
    using raw5 pm5 out5 raw6 pm6 out6 by simp
qed

section \<open>Units without a retirement year\<close>

lemma groupby_member:
  assumes "r \<in> set df"
  shows "(key r, filter (\<lambda>x. key x = key r) df) \<in> set (groupby key df)"
proof -
  have "key r \<in> set (sort (remdups (map key df)))"
    using assms by simp
  then show ?thesis
    unfolding groupby_def by (simp add: image_iff)
qed

text \<open>
  Claim C10. The split into operating and retired units is not a partition where the
  retirement year is missing: every unit of the units table whose retirement year is
  NaN (and whose technology is one of the clustered technologies, the other conjunct of
  the selection) is among the rows that are grouped by region and technology for the
  clustering, is a member of the group of its region and technology, and is in the
  retired table as well.
\<close>

theorem null_retirement_year_in_both:
  assumes "r \<in> set units_model"
    and "retirement_year r = None"
    and "technology r \<in> set techs"
  shows "r \<in> set (operating_units techs model_year units_model) \<and>
         ((model_region r, technology r),
            filter (\<lambda>x. (model_region x, technology x) = (model_region r, technology r))
              (operating_units techs model_year units_model))
           \<in> set (region_tech_grouped techs model_year units_model) \<and>
         r \<in> set (filter (\<lambda>x. (model_region x, technology x) = (model_region r, technology r))
              (operating_units techs model_year units_model)) \<and>
         r \<in> set (self_retired model_year units_model)"
proof -
  have op: "r \<in> set (operating_units techs model_year units_model)"
    using assms by (simp add: operating_units_def nan_le_def)
  have grp: "((model_region r, technology r),
            filter (\<lambda>x. (model_region x, technology x) = (model_region r, technology r))
              (operating_units techs model_year units_model))
           \<in> set (region_tech_grouped techs model_year units_model)"
    unfolding region_tech_grouped_def
    using groupby_member [OF op, of "\<lambda>r. (model_region r, technology r)"] by simp
  have ret: "r \<in> set (self_retired model_year units_model)"
    using assms by (simp add: self_retired_def nan_gt_def)
  from op grp ret show ?thesis by simp
qed

theorem null_retirement_year_in_both_witness:
  "example_model_units ! 1 \<in> set example_model_units \<and>
   retirement_year (example_model_units ! 1) = None \<and>
   example_model_units ! 1 \<in> set (operating_units [''Geothermal''] 2030 example_model_units) \<and>
   example_model_units ! 1 \<in> set (self_retired 2030 example_model_units) \<and>
   length (operating_units [''Geothermal''] 2030 example_model_units) +
     length (self_retired 2030 example_model_units) = 4 \<and>
   length example_model_units = 3"
proof -
  have mem: "example_model_units ! 1 \<in> set example_model_units"
    by (simp add: example_model_units_def)
  have null: "retirement_year (example_model_units ! 1) = None"
    by (simp add: example_model_units_def)
  have tech: "technology (example_model_units ! 1) \<in> set [''Geothermal'']"
    by (simp add: example_model_units_def)
  have len: "length (operating_units [''Geothermal''] 2030 example_model_units) +
     length (self_retired 2030 example_model_units) = 4 \<and> length example_model_units = 3"
    by (simp add: example_model_units_def operating_units_def self_retired_def
        nan_le_def nan_gt_def)
  show ?thesis
    using null_retirement_year_in_both [OF mem null tech, of 2030] mem null len by simp
qed

section \<open>Aggregation of a cluster\<close>

lemma sequence_results_Inr:
  "sequence_results xs = Inr vs \<longleftrightarrow> xs = map Inr vs"
proof (induction xs arbitrary: vs)
  case Nil
  then show ?case by auto
next
  case (Cons x xs)
  show ?case
  proof (cases x)
    case (Inl e)
    then show ?thesis by auto
  next
    case (Inr v)
    show ?thesis
    proof (cases "sequence_results xs")
      case (Inl e)
      with Inr Cons.IH show ?thesis
        by (auto simp: map_eq_Cons_conv)
    next
      case r: (Inr ws)
      with Inr Cons.IH [of ws] show ?thesis
        by (auto simp: map_eq_Cons_conv)
    qed
  qed
qed

lemma drop_null_heat_rate_filter:
  "drop_null_heat_rate df = filter (\<lambda>u. ug_heat_rate_mmbtu_mwh u \<noteq> None) df"
proof (cases "list_ex (\<lambda>u. ug_heat_rate_mmbtu_mwh u = None) df")
  case True
  then show ?thesis by (simp add: drop_null_heat_rate_def)
next
  case False
  then have "\<forall>u\<in>set df. ug_heat_rate_mmbtu_mwh u \<noteq> None"
    by (simp add: list_ex_iff)
  then have "filter (\<lambda>u. ug_heat_rate_mmbtu_mwh u \<noteq> None) df = df"
    by (simp add: filter_id_conv)
  with False show ?thesis by (simp add: drop_null_heat_rate_def)
qed

lemma groupby_rows:
  assumes "g \<in> set (groupby key df)"
  shows "snd g = filter (\<lambda>r. key r = fst g) df \<and> snd g \<noteq> [] \<and> fst g \<in> set (map key df)"
proof -
  from assms obtain k where k: "k \<in> set (map key df)" "g = (k, filter (\<lambda>r. key r = k) df)"
    unfolding groupby_def by auto
  from k(1) obtain r where "r \<in> set df" "key r = k"
    by auto
  then have "filter (\<lambda>r. key r = k) df \<noteq> []"
    by (auto simp: filter_empty_conv)
  with k show ?thesis by simp
qed

lemma keys_groupby: "map fst (groupby key df) = sort (remdups (map key df))"
  by (simp add: groupby_def comp_def)

lemma calc_unit_cluster_values_row:
  assumes "calc_unit_cluster_values df technology_arg = Inr values"
    and "v \<in> set values"
  shows "\<exists>c. c \<in> set (map cluster (drop_null_heat_rate df)) \<and>
             agg_cluster technology_arg c (cluster_members c df) = Inr v \<and>
             cluster_members c df \<noteq> []"
proof -
  let ?groups = "groupby cluster (drop_null_heat_rate df)"
  from assms(1) have "map (\<lambda>g. agg_cluster technology_arg (fst g) (snd g)) ?groups = map Inr values"
    by (simp add: calc_unit_cluster_values_def sequence_results_Inr)
  then have "Inr v \<in> set (map (\<lambda>g. agg_cluster technology_arg (fst g) (snd g)) ?groups)"
    using assms(2) by simp
  then obtain g where g: "g \<in> set ?groups" "agg_cluster technology_arg (fst g) (snd g) = Inr v"
    by auto
  have rows: "snd g = cluster_members (fst g) df"
    using groupby_rows [OF g(1)]
    by (simp add: drop_null_heat_rate_filter cluster_members_def conj_commute)
  have "fst g \<in> set (map cluster (drop_null_heat_rate df))" "snd g \<noteq> []"
    using groupby_rows [OF g(1)] by blast+
  with g(2) rows have "fst g \<in> set (map cluster (drop_null_heat_rate df)) \<and>
      agg_cluster technology_arg (fst g) (cluster_members (fst g) df) = Inr v \<and>
      cluster_members (fst g) df \<noteq> []"
    by simp
  then show ?thesis ..
qed

lemma agg_cluster_Inr:
  assumes "agg_cluster technology_arg c rows = Inr v"
  shows "sum_list (map capacity rows) \<noteq> 0 \<and>
         cv_cluster v = c \<and>
         cv_capacity v = pd_mean (map capacity rows) \<and>
         cv_minimum_load_mw v = pd_mean (map minimum_load_mw rows) \<and>
         wm ug_heat_rate_mmbtu_mwh rows = Inr (cv_heat_rate_mmbtu_mwh v) \<and>
         wm Fixed_OM_Cost_per_MWyr rows = Inr (cv_Fixed_OM_Cost_per_MWyr v) \<and>
         wm Var_OM_Cost_per_MWh rows = Inr (cv_Var_OM_Cost_per_MWh v) \<and>
         Min_Power v = nan_div (pd_mean (map minimum_load_mw rows)) (pd_mean (map capacity rows)) \<and>
         num_units v = length rows"
proof -
  have nz: "sum_list (map capacity rows) \<noteq> 0"
    using assms by (auto simp: agg_cluster_def wm_def np_average_def split: sum.splits if_splits)
  from assms show ?thesis
    using nz by (auto simp: agg_cluster_def split: sum.splits)
qed

lemma map2_nan_to_zero:
  "map2 (\<lambda>v w. nan_to_zero v * w) (map col rows) (map capacity rows) =
   map2 (\<lambda>x w. x * w) (map (\<lambda>u. nan_to_zero (col u)) rows) (map capacity rows)"
  by (induction rows) auto

lemma wm_value:
  assumes "wm col rows = Inr a"
  shows "a = (if None \<in> set (map col rows) then None
              else Some (capacity_weighted_mean (map (\<lambda>u. nan_to_zero (col u)) rows)
                           (map capacity rows)))"
  using assms
  by (auto simp: wm_def np_average_def capacity_weighted_mean_def map2_nan_to_zero
      simp del: set_map split: if_splits)

lemma pd_mean_unweighted: "xs \<noteq> [] \<Longrightarrow> pd_mean xs = Some (unweighted_mean xs)"
  by (simp add: pd_mean_def unweighted_mean_def)

lemma cluster_members_heat_rate:
  "None \<notin> set (map ug_heat_rate_mmbtu_mwh (cluster_members c df))"
  by (auto simp: cluster_members_def)

text \<open>
  Claim C4. For every cluster in the result of \<open>calc_unit_cluster_values\<close>, with its
  members the unit groups of that cluster label that have a heat rate: the cluster has
  a member; its capacity and minimum load are the unweighted means over the members;
  its heat rate is the mean over the members weighted by capacity, and so are its
  fixed and variable O&M costs (NaN when a member has none); \<open>num_units\<close> is the number
  of members; and \<open>Min_Power\<close> is the mean minimum load divided by the mean capacity
  (not a number when the mean capacity is zero).
\<close>

theorem cluster_aggregation:
  assumes "calc_unit_cluster_values df technology_arg = Inr values"
    and "v \<in> set values"
  shows "cluster_members (cv_cluster v) df \<noteq> [] \<and>
         cv_capacity v =
           Some (unweighted_mean (map capacity (cluster_members (cv_cluster v) df))) \<and>
         cv_minimum_load_mw v =
           Some (unweighted_mean (map minimum_load_mw (cluster_members (cv_cluster v) df))) \<and>
         cv_heat_rate_mmbtu_mwh v =
           Some (capacity_weighted_mean
                   (map (\<lambda>u. nan_to_zero (ug_heat_rate_mmbtu_mwh u)) (cluster_members (cv_cluster v) df))
                   (map capacity (cluster_members (cv_cluster v) df))) \<and>
         cv_Fixed_OM_Cost_per_MWyr v =
           (if None \<in> set (map Fixed_OM_Cost_per_MWyr (cluster_members (cv_cluster v) df)) then None
            else Some (capacity_weighted_mean
                   (map (\<lambda>u. nan_to_zero (Fixed_OM_Cost_per_MWyr u)) (cluster_members (cv_cluster v) df))
                   (map capacity (cluster_members (cv_cluster v) df)))) \<and>
         cv_Var_OM_Cost_per_MWh v =
           (if None \<in> set (map Var_OM_Cost_per_MWh (cluster_members (cv_cluster v) df)) then None
            else Some (capacity_weighted_mean
                   (map (\<lambda>u. nan_to_zero (Var_OM_Cost_per_MWh u)) (cluster_members (cv_cluster v) df))
                   (map capacity (cluster_members (cv_cluster v) df)))) \<and>
         num_units v = length (cluster_members (cv_cluster v) df) \<and>
         Min_Power v =
           (if unweighted_mean (map capacity (cluster_members (cv_cluster v) df)) = 0 then None
            else Some (unweighted_mean (map minimum_load_mw (cluster_members (cv_cluster v) df)) /
                       unweighted_mean (map capacity (cluster_members (cv_cluster v) df)))) \<and>
         sum_list (map capacity (cluster_members (cv_cluster v) df)) \<noteq> 0"
proof -
  from calc_unit_cluster_values_row [OF assms] obtain c where
    agg: "agg_cluster technology_arg c (cluster_members c df) = Inr v"
    and ne: "cluster_members c df \<noteq> []"
    by blast
  note row = agg_cluster_Inr [OF agg]
  have c: "cv_cluster v = c"
    using row by simp
  let ?m = "cluster_members c df"
  have cap: "cv_capacity v = Some (unweighted_mean (map capacity ?m))"
    using row ne by (simp add: pd_mean_unweighted)
  have ml: "cv_minimum_load_mw v = Some (unweighted_mean (map minimum_load_mw ?m))"
    using row ne by (simp add: pd_mean_unweighted)
  have "wm ug_heat_rate_mmbtu_mwh ?m = Inr (cv_heat_rate_mmbtu_mwh v)"
    using row by simp
  from wm_value [OF this]
  have hr: "cv_heat_rate_mmbtu_mwh v =
      Some (capacity_weighted_mean (map (\<lambda>u. nan_to_zero (ug_heat_rate_mmbtu_mwh u)) ?m)
              (map capacity ?m))"
    using cluster_members_heat_rate [of c df] by simp
  have "wm Fixed_OM_Cost_per_MWyr ?m = Inr (cv_Fixed_OM_Cost_per_MWyr v)"
    using row by simp
  note fom = wm_value [OF this]
  have "wm Var_OM_Cost_per_MWh ?m = Inr (cv_Var_OM_Cost_per_MWh v)"
    using row by simp
  note vom = wm_value [OF this]
  have n: "num_units v = length ?m"
    using row by simp
  have mp: "Min_Power v =
      (if unweighted_mean (map capacity ?m) = 0 then None
       else Some (unweighted_mean (map minimum_load_mw ?m) / unweighted_mean (map capacity ?m)))"
    using row ne by (simp add: pd_mean_unweighted nan_div_def)
  have nz: "sum_list (map capacity ?m) \<noteq> 0"
    using row by simp
  from ne cap ml hr fom vom n mp nz show ?thesis
    unfolding c by blast
qed

lemma example_calc_unit_cluster_values:
  "calc_unit_cluster_values example_clustered (Some ''Natural Gas Fired Combined Cycle'') =
     Inr example_cluster_values"
  by (simp add: calc_unit_cluster_values_def drop_null_heat_rate_def groupby_def
      agg_cluster_def wm_def np_average_def pd_mean_def nan_div_def nan_to_zero_def
      example_clustered_def example_cluster_values_def)

theorem cluster_aggregation_witness:
  "calc_unit_cluster_values example_clustered (Some ''Natural Gas Fired Combined Cycle'') =
     Inr example_cluster_values \<and>
   example_cluster_values ! 0 \<in> set example_cluster_values \<and>
   cluster_members 1 example_clustered = [example_clustered ! 0, example_clustered ! 1] \<and>
   cv_capacity (example_cluster_values ! 0) = Some (unweighted_mean [100, 300]) \<and>
   cv_minimum_load_mw (example_cluster_values ! 0) = Some (unweighted_mean [40, 60]) \<and>
   cv_heat_rate_mmbtu_mwh (example_cluster_values ! 0) =
     Some (capacity_weighted_mean [10, 12] [100, 300]) \<and>
   cv_Fixed_OM_Cost_per_MWyr (example_cluster_values ! 0) =
     Some (capacity_weighted_mean [30, 50] [100, 300]) \<and>
   cv_Var_OM_Cost_per_MWh (example_cluster_values ! 0) =
     Some (capacity_weighted_mean [2, 4] [100, 300]) \<and>
   num_units (example_cluster_values ! 0) = 2 \<and>
   Min_Power (example_cluster_values ! 0) = Some (unweighted_mean [40, 60] / unweighted_mean [100, 300])"
proof -
  have mem: "example_cluster_values ! 0 \<in> set example_cluster_values"
    by (simp add: example_cluster_values_def)
  have c: "cv_cluster (example_cluster_values ! 0) = 1"
    by (simp add: example_cluster_values_def)
  have members: "cluster_members 1 example_clustered = [example_clustered ! 0, example_clustered ! 1]"
    by (simp add: cluster_members_def example_clustered_def)
  have cols: "map capacity [example_clustered ! 0, example_clustered ! 1] = [100, 300]"
    "map minimum_load_mw [example_clustered ! 0, example_clustered ! 1] = [40, 60]"
    "map (\<lambda>u. nan_to_zero (ug_heat_rate_mmbtu_mwh u)) [example_clustered ! 0, example_clustered ! 1] = [10, 12]"
    "map (\<lambda>u. nan_to_zero (Fixed_OM_Cost_per_MWyr u)) [example_clustered ! 0, example_clustered ! 1] = [30, 50]"
    "map (\<lambda>u. nan_to_zero (Var_OM_Cost_per_MWh u)) [example_clustered ! 0, example_clustered ! 1] = [2, 4]"
    by (simp_all add: example_clustered_def nan_to_zero_def)
  have none: "(None \<in> set (map Fixed_OM_Cost_per_MWyr [example_clustered ! 0, example_clustered ! 1])) = False"
    "(None \<in> set (map Var_OM_Cost_per_MWh [example_clustered ! 0, example_clustered ! 1])) = False"
    by (simp_all add: example_clustered_def)
  have nz: "(unweighted_mean [100, 300] = 0) = False"
    by (simp add: unweighted_mean_def)
  have two: "length [example_clustered ! 0, example_clustered ! 1] = 2"
    by simp
  note inst = cluster_aggregation [OF example_calc_unit_cluster_values mem,
      unfolded c members none cols nz two if_False]
  from inst example_calc_unit_cluster_values mem members show ?thesis
    by blast
qed

section \<open>The clusters of a region and technology\<close>

lemma sum_list_indicator:
  "distinct ks \<Longrightarrow> x \<in> set ks \<Longrightarrow> sum_list (map (\<lambda>k. if x = k then 1 else 0) ks) = (1::nat)"
proof (induction ks)
  case Nil
  then show ?case by simp
next
  case (Cons k ks)
  show ?case
  proof (cases "x = k")
    case True
    with Cons.prems have "x \<notin> set ks" by simp
    then have "sum_list (map (\<lambda>k. if x = k then 1 else 0) ks) = (0::nat)"
      by (induction ks) auto
    with True show ?thesis by simp
  next
    case False
    with Cons show ?thesis by simp
  qed
qed

lemma sum_group_sizes:
  assumes "distinct ks"
  shows "set (map key df) \<subseteq> set ks \<Longrightarrow>
         sum_list (map (\<lambda>k. length (filter (\<lambda>r. key r = k) df)) ks) = length df"
proof (induction df)
  case Nil
  then show ?case by simp
next
  case (Cons r df)
  have "sum_list (map (\<lambda>k. length (filter (\<lambda>r. key r = k) (r # df))) ks) =
        sum_list (map (\<lambda>k. (if key r = k then 1 else 0) + length (filter (\<lambda>r. key r = k) df)) ks)"
    by (rule arg_cong [where f = sum_list], rule map_cong) auto
  also have "\<dots> = sum_list (map (\<lambda>k. if key r = k then 1 else 0) ks) +
                  sum_list (map (\<lambda>k. length (filter (\<lambda>r. key r = k) df)) ks)"
    by (simp add: sum_list_addf)
  also have "\<dots> = 1 + length df"
    using Cons sum_list_indicator [OF assms, of "key r"] by simp
  finally show ?case by simp
qed

lemma calc_unit_cluster_values_columns:
  assumes "calc_unit_cluster_values df technology_arg = Inr values"
  shows "map cv_cluster values = sort (remdups (map cluster (drop_null_heat_rate df)))"
    and "map num_units values =
           map (\<lambda>k. length (filter (\<lambda>r. cluster r = k) (drop_null_heat_rate df)))
             (sort (remdups (map cluster (drop_null_heat_rate df))))"
proof -
  let ?groups = "groupby cluster (drop_null_heat_rate df)"
  from assms have eq: "map (\<lambda>g. agg_cluster technology_arg (fst g) (snd g)) ?groups = map Inr values"
    by (simp add: calc_unit_cluster_values_def sequence_results_Inr)
  then have "length (map (\<lambda>g. agg_cluster technology_arg (fst g) (snd g)) ?groups) =
      length (map Inr values)"
    by simp
  then have len: "length values = length ?groups"
    by simp
  have row: "cv_cluster (values ! i) = fst (?groups ! i) \<and>
             num_units (values ! i) = length (snd (?groups ! i))" if "i < length ?groups" for i
  proof -
    from eq have "map (\<lambda>g. agg_cluster technology_arg (fst g) (snd g)) ?groups ! i = map Inr values ! i"
      by simp
    with that len have "agg_cluster technology_arg (fst (?groups ! i)) (snd (?groups ! i)) = Inr (values ! i)"
      by simp
    from agg_cluster_Inr [OF this] show ?thesis by simp
  qed
  have "map cv_cluster values = map fst ?groups"
    using len row by (auto intro: nth_equalityI)
  then show "map cv_cluster values = sort (remdups (map cluster (drop_null_heat_rate df)))"
    by (simp add: keys_groupby)
  have "map num_units values = map (\<lambda>g. length (snd g)) ?groups"
    using len row by (auto intro: nth_equalityI)
  then show "map num_units values =
           map (\<lambda>k. length (filter (\<lambda>r. cluster r = k) (drop_null_heat_rate df)))
             (sort (remdups (map cluster (drop_null_heat_rate df))))"
    by (simp add: groupby_def comp_def)
qed

lemma calc_unit_cluster_values_sizes:
  assumes "calc_unit_cluster_values df technology_arg = Inr values"
  shows "distinct (map cv_cluster values)"
    and "sum_list (map num_units values) = length (drop_null_heat_rate df)"
    and "length values \<le> length (drop_null_heat_rate df)"
    and "\<forall>v\<in>set values. 1 \<le> num_units v"
proof -
  note cols = calc_unit_cluster_values_columns [OF assms]
  show "distinct (map cv_cluster values)"
    by (simp add: cols(1))
  have "sum_list (map (\<lambda>k. length (filter (\<lambda>r. cluster r = k) (drop_null_heat_rate df)))
          (sort (remdups (map cluster (drop_null_heat_rate df))))) = length (drop_null_heat_rate df)"
    by (rule sum_group_sizes) simp_all
  then show "sum_list (map num_units values) = length (drop_null_heat_rate df)"
    by (simp add: cols(2))
  have "length values = length (map cv_cluster values)"
    by simp
  also have "\<dots> = length (remdups (map cluster (drop_null_heat_rate df)))"
    by (simp only: cols(1) length_sort)
  also have "\<dots> \<le> length (drop_null_heat_rate df)"
    using length_remdups_leq [of "map cluster (drop_null_heat_rate df)"] by simp
  finally show "length values \<le> length (drop_null_heat_rate df)" .
  show "\<forall>v\<in>set values. 1 \<le> num_units v"
  proof
    fix v assume "v \<in> set values"
    from calc_unit_cluster_values_row [OF assms this] obtain c where
      agg: "agg_cluster technology_arg c (cluster_members c df) = Inr v"
      and ne: "cluster_members c df \<noteq> []"
      by blast
    from agg_cluster_Inr [OF agg] have "num_units v = length (cluster_members c df)"
      by simp
    with ne show "1 \<le> num_units v"
      by (cases "cluster_members c df") simp_all
  qed
qed

lemma heat_rate_assign_labels:
  "length labels = length grouped \<Longrightarrow>
   map ug_heat_rate_mmbtu_mwh (assign_labels grouped labels) = map ug_heat_rate_mmbtu_mwh grouped"
  unfolding assign_labels_def
  by (induction labels grouped rule: list_induct2) (simp_all add: set_cluster_def)

lemma length_filter_heat_rate:
  "length (filter (\<lambda>u. ug_heat_rate_mmbtu_mwh u \<noteq> None) df) =
   length (filter (\<lambda>h. h \<noteq> None) (map ug_heat_rate_mmbtu_mwh df))"
  by (induction df) auto

lemma length_drop_null_assign_labels:
  assumes "length labels = length grouped"
  shows "length (drop_null_heat_rate (assign_labels grouped labels)) =
         length (filter (\<lambda>u. ug_heat_rate_mmbtu_mwh u \<noteq> None) grouped)"
proof -
  have "length (drop_null_heat_rate (assign_labels grouped labels)) =
        length (filter (\<lambda>h. h \<noteq> None) (map ug_heat_rate_mmbtu_mwh (assign_labels grouped labels)))"
    by (simp only: drop_null_heat_rate_filter length_filter_heat_rate)
  also have "\<dots> = length (filter (\<lambda>h. h \<noteq> None) (map ug_heat_rate_mmbtu_mwh grouped))"
    by (simp only: heat_rate_assign_labels [OF assms])
  also have "\<dots> = length (filter (\<lambda>u. ug_heat_rate_mmbtu_mwh u \<noteq> None) grouped)"
    by (simp only: length_filter_heat_rate)
  finally show ?thesis .
qed

lemma n_clusters_min:
  "n_clusters num_clusters grouped = min num_clusters (int (length grouped))"
  by (simp add: n_clusters_def min_def)

lemma cluster_assign_labels:
  "length labels = length grouped \<Longrightarrow>
   map cluster (assign_labels grouped labels) = map (\<lambda>l. l + 1) labels"
  unfolding assign_labels_def
  by (induction labels grouped rule: list_induct2) (simp_all add: set_cluster_def)

lemma length_remdups_labels:
  assumes "\<forall>l\<in>set labels. int l < n" and "0 \<le> n"
  shows "int (length (remdups (map (\<lambda>l. l + 1) labels))) \<le> n"
    and "length (remdups (map (\<lambda>l. l + 1) labels)) \<le> length labels"
proof -
  have "length (remdups (map (\<lambda>l. l + 1) labels)) = card (set (map (\<lambda>l. l + 1) labels))"
    by (rule length_remdups_card_conv)
  also have "\<dots> \<le> card (set labels)"
    by (simp add: card_image_le)
  finally have le: "length (remdups (map (\<lambda>l. l + 1) labels)) \<le> card (set labels)" .
  have "set labels \<subseteq> {..<nat n}"
    using assms by auto
  then have "card (set labels) \<le> card {..<nat n}"
    by (intro card_mono) simp_all
  with le have "length (remdups (map (\<lambda>l. l + 1) labels)) \<le> nat n"
    by simp
  with assms(2) show "int (length (remdups (map (\<lambda>l. l + 1) labels))) \<le> n"
    by linarith
  show "length (remdups (map (\<lambda>l. l + 1) labels)) \<le> length labels"
    using le card_length [of labels] by linarith
qed

lemma features_no_nan:
  assumes "X = cluster_cols grouped \<or> X = all_cols grouped"
    and "\<forall>row\<in>set X. None \<notin> set row"
  shows "filter (\<lambda>u. ug_heat_rate_mmbtu_mwh u \<noteq> None) grouped = grouped"
proof -
  have "ug_heat_rate_mmbtu_mwh u \<noteq> None" if u: "u \<in> set grouped" for u
  proof -
    from assms(1) show ?thesis
    proof
      assume "X = cluster_cols grouped"
      with u have "[Fixed_OM_Cost_per_MWyr u, ug_heat_rate_mmbtu_mwh u] \<in> set X"
        by (simp add: cluster_cols_def)
      with assms(2) have "None \<notin> set [Fixed_OM_Cost_per_MWyr u, ug_heat_rate_mmbtu_mwh u]"
        by blast
      then show ?thesis by (cases "ug_heat_rate_mmbtu_mwh u") auto
    next
      assume "X = all_cols grouped"
      with u have "[Some (capacity u), Some (minimum_load_mw u), ug_heat_rate_mmbtu_mwh u,
          Fixed_OM_Cost_per_MWyr u, Var_OM_Cost_per_MWh u] \<in> set X"
        by (simp add: all_cols_def)
      with assms(2) have "None \<notin> set [Some (capacity u), Some (minimum_load_mw u),
          ug_heat_rate_mmbtu_mwh u, Fixed_OM_Cost_per_MWyr u, Var_OM_Cost_per_MWh u]"
        by blast
      then show ?thesis by (cases "ug_heat_rate_mmbtu_mwh u") auto
    qed
  qed
  then have "\<forall>u\<in>set grouped. ug_heat_rate_mmbtu_mwh u \<noteq> None"
    by blast
  then show ?thesis
    by (simp add: filter_id_conv)
qed

lemma length_features:
  "X = cluster_cols grouped \<or> X = all_cols grouped \<Longrightarrow> length X = length grouped"
  by (auto simp: cluster_cols_def all_cols_def)

lemma cluster_kmeans_values_Inr:
  assumes contract: "sklearn_contract KMeans fit_transform"
    and res: "cluster_kmeans_values KMeans fit_transform n X tech grouped = Inr values"
    and X: "X = cluster_cols grouped \<or> X = all_cols grouped"
    and n: "n = 0 \<longrightarrow> grouped = []"
    and pos: "0 \<le> n"
  shows "\<exists>labels. KMeans n 6 (fit_transform X) = Inr labels \<and>
           length labels = length grouped \<and>
           map cv_cluster values = sort (remdups (map (\<lambda>l. l + 1) labels)) \<and>
           int (length values) \<le> n \<and> length values \<le> length grouped \<and>
           distinct (map cv_cluster values) \<and>
           (\<forall>v\<in>set values. 1 \<le> num_units v) \<and>
           sum_list (map num_units values) = length grouped"
proof -
  from res obtain labels where
    km: "KMeans n 6 (fit_transform X) = Inr labels"
    and len: "length labels = length grouped"
    and vals: "(if n \<noteq> 0 then calc_unit_cluster_values (assign_labels grouped labels) (Some tech)
               else Inr []) = Inr values"
    by (auto simp: cluster_kmeans_values_def split: sum.splits if_splits)
  from contract km have lab: "\<forall>l\<in>set labels. int l < n"
    and nan: "\<forall>row\<in>set X. None \<notin> set row"
    unfolding sklearn_contract_def by blast+
  let ?df = "assign_labels grouped labels"
  have calc: "calc_unit_cluster_values ?df (Some tech) = Inr values"
  proof (cases "n = 0")
    case True
    with n len vals show ?thesis
      by (simp add: calc_unit_cluster_values_def assign_labels_def drop_null_heat_rate_def
          groupby_def)
  next
    case False
    with vals show ?thesis by simp
  qed
  have all: "length (drop_null_heat_rate ?df) = length grouped"
    using length_drop_null_assign_labels [OF len] features_no_nan [OF X nan] by simp
  have "length (drop_null_heat_rate ?df) = length ?df"
    using all len by (simp add: assign_labels_def)
  then have keep: "drop_null_heat_rate ?df = ?df"
    unfolding drop_null_heat_rate_filter
    by (metis filter_True length_filter_less less_irrefl_nat filter_id_conv)
  note sizes = calc_unit_cluster_values_sizes [OF calc]
  note cols = calc_unit_cluster_values_columns [OF calc]
  have clusters: "map cv_cluster values = sort (remdups (map (\<lambda>l. l + 1) labels))"
    using cols(1) by (simp only: keep cluster_assign_labels [OF len])
  have "length values = length (map cv_cluster values)"
    by simp
  also have "\<dots> = length (remdups (map (\<lambda>l. l + 1) labels))"
    by (simp only: clusters length_sort)
  finally have count: "length values = length (remdups (map (\<lambda>l. l + 1) labels))" .
  have le_n: "int (length values) \<le> n"
    using length_remdups_labels(1) [OF lab pos] count by simp
  have le_len: "length values \<le> length grouped"
    using length_remdups_labels(2) [OF lab pos] count len by simp
  have sum: "sum_list (map num_units values) = length grouped"
    using sizes(2) all by simp
  from km len clusters le_n le_len sizes(1) sizes(4) sum show ?thesis
    by blast
qed

text \<open>
  Claim C3, as amended. For a region and technology with a configured number of
  clusters \<open>k > 0\<close> for which the clustering returns, with \<open>n\<close> the number of
  unit groups and k-means as scikit-learn documents it: at most \<open>min k n\<close> clusters
  are produced, one for every distinct label that k-means gives to the unit groups
  (each label shifted by one), so no two rows have the same cluster; every cluster has
  \<open>num_units\<close> at least 1; and the \<open>num_units\<close> of the clusters add up to \<open>n\<close>.
  Where no \<open>alt_cluster_method\<close> is configured, k-means is asked for \<open>min k n\<close>
  clusters on the fixed O&M cost and the heat rate, so a number above \<open>n\<close> is
  reduced to \<open>n\<close>. The program does not make the number of clusters equal to
  \<open>min k n\<close>: it is the number of distinct labels that k-means returns.
\<close>

theorem clusters_partition_unit_groups:
  assumes "sklearn_contract KMeans fit_transform"
    and "0 < num_clusters"
    and "cluster_region_tech KMeans fit_transform alt_cluster_method region tech num_clusters
           grouped = Inr values"
  shows "int (length values) \<le> min num_clusters (int (length grouped)) \<and>
         (\<forall>v\<in>set values. 1 \<le> num_units v) \<and>
         sum_list (map num_units values) = length grouped \<and>
         distinct (map cv_cluster values) \<and>
         (\<exists>n X labels.
            KMeans n 6 (fit_transform X) = Inr labels \<and>
            length labels = length grouped \<and>
            map cv_cluster values = sort (remdups (map (\<lambda>l. l + 1) labels)) \<and>
            (alt_cluster_method = [] \<longrightarrow>
               n = min num_clusters (int (length grouped)) \<and> X = cluster_cols grouped))"
proof (cases "alt_cluster_method = []")
  case True
  let ?n = "n_clusters num_clusters grouped"
  from assms(2,3) True
  have res: "cluster_kmeans_values KMeans fit_transform ?n (cluster_cols grouped) tech grouped =
      Inr values"
    by (simp add: cluster_region_tech_def)
  have zero: "?n = 0 \<longrightarrow> grouped = []"
    using assms(2) by (simp add: n_clusters_def split: if_splits)
  have pos: "0 \<le> ?n"
    using assms(2) by (simp add: n_clusters_def)
  from cluster_kmeans_values_Inr [OF assms(1) res _ zero pos] obtain labels where
    l: "KMeans ?n 6 (fit_transform (cluster_cols grouped)) = Inr labels"
    "length labels = length grouped"
    "map cv_cluster values = sort (remdups (map (\<lambda>l. l + 1) labels))"
    "int (length values) \<le> ?n" "distinct (map cv_cluster values)"
    "\<forall>v\<in>set values. 1 \<le> num_units v" "sum_list (map num_units values) = length grouped"
    by blast
  have ex: "\<exists>n X labels.
            KMeans n 6 (fit_transform X) = Inr labels \<and>
            length labels = length grouped \<and>
            map cv_cluster values = sort (remdups (map (\<lambda>l. l + 1) labels)) \<and>
            (alt_cluster_method = [] \<longrightarrow>
               n = min num_clusters (int (length grouped)) \<and> X = cluster_cols grouped)"
    using l(1,2,3) n_clusters_min [of num_clusters grouped] by metis
  from l(4) have "int (length values) \<le> min num_clusters (int (length grouped))"
    by (simp only: n_clusters_min)
  with l(5,6,7) ex show ?thesis
    by blast
next
  case False
  from assms(2,3) False
  have res: "cluster_kmeans_values KMeans fit_transform num_clusters (all_cols grouped) tech grouped =
      Inr values"
    by (simp add: cluster_region_tech_def split: if_splits)
  have zero: "num_clusters = 0 \<longrightarrow> grouped = []"
    using assms(2) by simp
  have pos: "0 \<le> num_clusters"
    using assms(2) by simp
  from cluster_kmeans_values_Inr [OF assms(1) res _ zero pos] obtain labels where
    l: "KMeans num_clusters 6 (fit_transform (all_cols grouped)) = Inr labels"
    "length labels = length grouped"
    "map cv_cluster values = sort (remdups (map (\<lambda>l. l + 1) labels))"
    "int (length values) \<le> num_clusters" "length values \<le> length grouped"
    "distinct (map cv_cluster values)"
    "\<forall>v\<in>set values. 1 \<le> num_units v" "sum_list (map num_units values) = length grouped"
    by blast
  have ex: "\<exists>n X labels.
            KMeans n 6 (fit_transform X) = Inr labels \<and>
            length labels = length grouped \<and>
            map cv_cluster values = sort (remdups (map (\<lambda>l. l + 1) labels)) \<and>
            (alt_cluster_method = [] \<longrightarrow>
               n = min num_clusters (int (length grouped)) \<and> X = cluster_cols grouped)"
    using l(1,2,3) False by blast
  from l(4,5) have "int (length values) \<le> min num_clusters (int (length grouped))"
    by simp
  with l(6,7,8) ex show ?thesis
    by blast
qed

lemma nan_zero_scores:
  "list_ex (\<lambda>row. None \<in> set row) (zero_scores X) = list_ex (\<lambda>row. None \<in> set row) X"
proof -
  have "None \<in> set (map (\<lambda>v. case v of None \<Rightarrow> None | Some x \<Rightarrow> Some (0::real)) row) \<longleftrightarrow>
        None \<in> set row" for row :: "real option list"
    by (induction row) (auto split: option.splits)
  then show ?thesis
    by (simp add: zero_scores_def list_ex_iff)
qed

lemma one_label_contract: "sklearn_contract one_label_KMeans zero_scores"
  unfolding sklearn_contract_def
proof (intro allI impI)
  fix n seed X labels
  assume km: "one_label_KMeans n seed (zero_scores X) = Inr labels"
  then have ok: "\<not> refused n (zero_scores X)" and lab: "labels = map (\<lambda>p. 0) (zero_scores X)"
    by (auto simp: one_label_KMeans_def split: if_splits)
  from ok have n: "1 \<le> n" and nan: "\<not> list_ex (\<lambda>row. None \<in> set row) X"
    by (simp_all add: refused_def nan_zero_scores)
  from lab have "length labels = length X"
    by (simp add: zero_scores_def)
  moreover from lab n have "\<forall>l\<in>set labels. int l < n"
    by auto
  moreover from nan have "\<forall>row\<in>set X. None \<notin> set row"
    by (simp add: list_ex_iff)
  ultimately show "length labels = length X \<and> (\<forall>l\<in>set labels. int l < n) \<and>
      (\<forall>row\<in>set X. None \<notin> set row)"
    by blast
qed

lemma labels_in_turn_props:
  "length (labels_in_turn n i xs) = length xs"
  "0 < n \<Longrightarrow> \<forall>l\<in>set (labels_in_turn n i xs). l < n"
  by (induction xs arbitrary: i) simp_all

lemma in_turn_contract: "sklearn_contract in_turn_KMeans unscaled"
  unfolding sklearn_contract_def
proof (intro allI impI)
  fix n seed X labels
  assume km: "in_turn_KMeans n seed (unscaled X) = Inr labels"
  then have ok: "\<not> refused n X" and lab: "labels = labels_in_turn (nat n) 0 X"
    by (auto simp: in_turn_KMeans_def unscaled_def split: if_splits)
  from ok have n: "1 \<le> n" and nan: "\<not> list_ex (\<lambda>row. None \<in> set row) X"
    by (simp_all add: refused_def)
  from lab have "length labels = length X"
    by (simp add: labels_in_turn_props)
  moreover have "\<forall>l\<in>set labels. int l < n"
  proof
    fix l assume "l \<in> set labels"
    with lab n labels_in_turn_props(2) [of "nat n" 0 X] have "l < nat n"
      by auto
    with n show "int l < n" by linarith
  qed
  moreover from nan have "\<forall>row\<in>set X. None \<notin> set row"
    by (simp add: list_ex_iff)
  ultimately show "length labels = length X \<and> (\<forall>l\<in>set labels. int l < n) \<and>
      (\<forall>row\<in>set X. None \<notin> set row)"
    by blast
qed

lemma three_units_k2:
  "cluster_region_tech in_turn_KMeans unscaled [] ''CA_N'' ''Geothermal'' 2 three_units =
     Inr three_units_two_clusters"
  by (simp add: cluster_region_tech_def cluster_kmeans_values_def n_clusters_def
      cluster_cols_def in_turn_KMeans_def refused_def unscaled_def assign_labels_def
      set_cluster_def three_units_def three_units_two_clusters_def
      calc_unit_cluster_values_def drop_null_heat_rate_def groupby_def
      agg_cluster_def wm_def np_average_def pd_mean_def nan_div_def nan_to_zero_def)

lemma three_units_k5:
  "cluster_region_tech in_turn_KMeans unscaled [] ''CA_N'' ''Geothermal'' 5 three_units =
     Inr three_units_singletons"
  by (simp add: cluster_region_tech_def cluster_kmeans_values_def n_clusters_def
      cluster_cols_def in_turn_KMeans_def refused_def unscaled_def assign_labels_def
      set_cluster_def three_units_def three_units_singletons_def
      calc_unit_cluster_values_def drop_null_heat_rate_def groupby_def
      agg_cluster_def wm_def np_average_def pd_mean_def nan_div_def nan_to_zero_def)

theorem clusters_partition_unit_groups_witness:
  "sklearn_contract in_turn_KMeans unscaled \<and>
   length three_units = 3 \<and>
   cluster_region_tech in_turn_KMeans unscaled [] ''CA_N'' ''Geothermal'' 2 three_units =
     Inr three_units_two_clusters \<and>
   map num_units three_units_two_clusters = [2, 1] \<and>
   int (length three_units_two_clusters) \<le> min 2 (int (length three_units)) \<and>
   sum_list (map num_units three_units_two_clusters) = length three_units \<and>
   cluster_region_tech in_turn_KMeans unscaled [] ''CA_N'' ''Geothermal'' 5 three_units =
     Inr three_units_singletons \<and>
   map num_units three_units_singletons = [1, 1, 1] \<and>
   int (length three_units_singletons) \<le> min 5 (int (length three_units)) \<and>
   sum_list (map num_units three_units_singletons) = length three_units"
proof -
  have k2: "(0::int) < 2" and k5: "(0::int) < 5"
    by simp_all
  note two = clusters_partition_unit_groups [OF in_turn_contract k2 three_units_k2]
  note five = clusters_partition_unit_groups [OF in_turn_contract k5 three_units_k5]
  have a: "int (length three_units_two_clusters) \<le> min 2 (int (length three_units))"
    by (rule two [THEN conjunct1])
  have b: "sum_list (map num_units three_units_two_clusters) = length three_units"
    by (rule two [THEN conjunct2, THEN conjunct2, THEN conjunct1])
  have c: "int (length three_units_singletons) \<le> min 5 (int (length three_units))"
    by (rule five [THEN conjunct1])
  have d: "sum_list (map num_units three_units_singletons) = length three_units"
    by (rule five [THEN conjunct2, THEN conjunct2, THEN conjunct1])
  have e: "length three_units = 3" "map num_units three_units_two_clusters = [2, 1]"
    "map num_units three_units_singletons = [1, 1, 1]"
    by (simp_all add: three_units_def three_units_two_clusters_def three_units_singletons_def)
  from in_turn_contract three_units_k2 three_units_k5 a b c d e show ?thesis
    by blast
qed

lemma two_equal_units_clusters:
  "cluster_region_tech one_label_KMeans zero_scores [] ''CA_N'' ''Geothermal'' 2 two_equal_units =
     Inr [\<lparr>cv_cluster = 1, cv_capacity = Some 40, cv_minimum_load_mw = Some 10,
           cv_heat_rate_mmbtu_mwh = Some 10, cv_Fixed_OM_Cost_per_MWyr = Some 30,
           cv_Var_OM_Cost_per_MWh = Some 2, Min_Power = Some (1 / 4), num_units = 2,
           cv_technology = Some ''Geothermal''\<rparr>]"
  by (simp add: cluster_region_tech_def cluster_kmeans_values_def n_clusters_def
      cluster_cols_def one_label_KMeans_def refused_def zero_scores_def assign_labels_def
      set_cluster_def two_equal_units_def
      calc_unit_cluster_values_def drop_null_heat_rate_def groupby_def
      agg_cluster_def wm_def np_average_def pd_mean_def nan_div_def nan_to_zero_def)

lemma two_equal_units_clusters_k5:
  "cluster_region_tech one_label_KMeans zero_scores [] ''CA_N'' ''Geothermal'' 5 two_equal_units =
     Inr [\<lparr>cv_cluster = 1, cv_capacity = Some 40, cv_minimum_load_mw = Some 10,
           cv_heat_rate_mmbtu_mwh = Some 10, cv_Fixed_OM_Cost_per_MWyr = Some 30,
           cv_Var_OM_Cost_per_MWh = Some 2, Min_Power = Some (1 / 4), num_units = 2,
           cv_technology = Some ''Geothermal''\<rparr>]"
  by (simp add: cluster_region_tech_def cluster_kmeans_values_def n_clusters_def
      cluster_cols_def one_label_KMeans_def refused_def zero_scores_def assign_labels_def
      set_cluster_def two_equal_units_def
      calc_unit_cluster_values_def drop_null_heat_rate_def groupby_def
      agg_cluster_def wm_def np_average_def pd_mean_def nan_div_def nan_to_zero_def)

text \<open>
  The claim as it was stated fails: with two clusters configured for two unit groups
  whose fixed O&M cost and heat rate coincide, k-means gives both the same label and
  one cluster of two unit groups is produced, not two clusters. With five clusters
  configured for the same two unit groups the number is reduced to two, and again one
  cluster of two unit groups is produced, not two singletons.
\<close>

theorem exactly_k_clusters_counterexample:
  "sklearn_contract one_label_KMeans zero_scores \<and>
   int (length two_equal_units) = 2 \<and>
   (case cluster_region_tech one_label_KMeans zero_scores [] ''CA_N'' ''Geothermal'' 2
           two_equal_units of
      Inl e \<Rightarrow> False
    | Inr values \<Rightarrow> length values = 1 \<and> int (length values) \<noteq> 2 \<and> map num_units values = [2]) \<and>
   n_clusters 5 two_equal_units = 2 \<and>
   (case cluster_region_tech one_label_KMeans zero_scores [] ''CA_N'' ''Geothermal'' 5
           two_equal_units of
      Inl e \<Rightarrow> False
    | Inr values \<Rightarrow> length values = 1 \<and> map num_units values = [2])"
proof -
  have "int (length two_equal_units) = 2" "n_clusters 5 two_equal_units = 2"
    by (simp_all add: two_equal_units_def n_clusters_def)
  with one_label_contract show ?thesis
    by (simp add: two_equal_units_clusters two_equal_units_clusters_k5)
qed

text \<open>
  The other two branches at the same unit groups: with \<open>alt_cluster_method\<close>
  configured for another region k-means gets all columns and the number of clusters as
  it is, and for a region and technology clustered by owner the round raises
  AttributeError.
\<close>

lemma three_units_other_branches:
  "cluster_region_tech in_turn_KMeans unscaled [(''CA_S'', [''Geothermal''])] ''CA_N''
     ''Geothermal'' 2 three_units = Inr three_units_two_clusters"
  "cluster_region_tech in_turn_KMeans unscaled [(''CA_S'', [''Geothermal''])] ''CA_N''
     ''Geothermal'' 5 three_units = Inl ValueError"
  "cluster_region_tech in_turn_KMeans unscaled [(''CA_N'', [''Geothermal''])] ''CA_N''
     ''Geothermal'' 2 three_units = Inl AttributeError"
  by (simp_all add: cluster_region_tech_def cluster_kmeans_values_def owner_clustered_def
      all_cols_def in_turn_KMeans_def refused_def unscaled_def assign_labels_def
      set_cluster_def three_units_def three_units_two_clusters_def
      calc_unit_cluster_values_def drop_null_heat_rate_def groupby_def
      agg_cluster_def wm_def np_average_def pd_mean_def nan_div_def nan_to_zero_def)

section \<open>Existing capacity\<close>

lemma round_half_even_of_int: "round_half_even (real_of_int z) = z"
  by (simp add: round_half_even_def)

lemma round3_times_nat: "round3 (round3 x * real n) = round3 x * real n"
proof -
  have "round3 x * real n * 1000 = real_of_int (round_half_even (x * 1000) * int n)"
    by (simp add: round3_def)
  then have "round_half_even (round3 x * real n * 1000) = round_half_even (x * 1000) * int n"
    by (simp only: round_half_even_of_int)
  then show ?thesis
    by (simp add: round3_def)
qed

lemma round3_idem: "round3 (round3 x) = round3 x"
  using round3_times_nat [of x 1] by simp

lemma set_existing_cap_row:
  assumes "r \<in> set (set_existing_cap rs)"
  shows "\<exists>r0\<in>set rs. Cap_size r = Cap_size r0 \<and> res_num_units r = res_num_units r0 \<and>
           Existing_Cap_MW r = nan_mul (Cap_size r0) (Some (real (res_num_units r0)))"
proof -
  from assms obtain r0 where "r0 \<in> set rs"
    and "r = r0\<lparr>Existing_Cap_MW := nan_mul (Cap_size r0) (Some (real (res_num_units r0)))\<rparr>"
    unfolding set_existing_cap_def by auto
  then show ?thesis by (intro bexI [of _ r0]) simp_all
qed

lemma set_unmodified_existing_cap_row:
  assumes "r \<in> set (set_unmodified_existing_cap rs)"
  shows "\<exists>r0\<in>set rs. Cap_size r = Cap_size r0 \<and> res_num_units r = res_num_units r0 \<and>
           Existing_Cap_MW r = Existing_Cap_MW r0"
proof -
  from assms obtain r0 where "r0 \<in> set rs"
    and "r = r0\<lparr>unmodified_existing_cap_mw :=
                   nan_mul (unmodified_cap_size r0) (Some (real (res_num_units r0)))\<rparr>"
    unfolding set_unmodified_existing_cap_def by auto
  then show ?thesis by (intro bexI [of _ r0]) simp_all
qed

lemma round_results_row:
  assumes "r \<in> set (round_results rs)"
  shows "\<exists>c. Cap_size r = nan_round3 c"
  using assms unfolding round_results_def by auto

lemma Cap_size_rounded:
  assumes "existing_capacity settings capacity_factors results = Inr out"
    and "r \<in> set out"
  shows "\<exists>c. Cap_size r = nan_round3 c \<and>
             Existing_Cap_MW r = nan_mul (Cap_size r) (Some (real (res_num_units r)))"
proof -
  let ?rs = "round_results (capacity_factor_step settings capacity_factors results)"
  from assms(1) have "out = set_existing_cap ?rs \<or>
      out = set_unmodified_existing_cap (set_existing_cap ?rs)"
    by (auto simp: existing_capacity_def Let_def split: if_splits)
  then have "\<exists>r1\<in>set (set_existing_cap ?rs). Cap_size r = Cap_size r1 \<and>
      res_num_units r = res_num_units r1 \<and> Existing_Cap_MW r = Existing_Cap_MW r1"
  proof
    assume "out = set_existing_cap ?rs"
    with assms(2) show ?thesis by blast
  next
    assume "out = set_unmodified_existing_cap (set_existing_cap ?rs)"
    with assms(2) show ?thesis
      using set_unmodified_existing_cap_row by blast
  qed
  then obtain r1 where r1: "r1 \<in> set (set_existing_cap ?rs)" "Cap_size r = Cap_size r1"
    "res_num_units r = res_num_units r1" "Existing_Cap_MW r = Existing_Cap_MW r1"
    by blast
  from set_existing_cap_row [OF r1(1)] obtain r0 where r0: "r0 \<in> set ?rs"
    "Cap_size r1 = Cap_size r0" "res_num_units r1 = res_num_units r0"
    "Existing_Cap_MW r1 = nan_mul (Cap_size r0) (Some (real (res_num_units r0)))"
    by blast
  from round_results_row [OF r0(1)] obtain c where "Cap_size r0 = nan_round3 c"
    by blast
  with r0 r1 have "Cap_size r = nan_round3 c \<and>
      Existing_Cap_MW r = nan_mul (Cap_size r) (Some (real (res_num_units r)))"
    by simp
  then show ?thesis ..
qed

lemma existing_cap_rounded_again:
  assumes "existing_capacity settings capacity_factors results = Inr out"
    and "r \<in> set out"
    and "r' = all_resources_round [r] ! 0"
  shows "Existing_Cap_MW r = nan_mul (Cap_size r) (Some (real (res_num_units r))) \<and>
         Cap_size r' = Cap_size r \<and> res_num_units r' = res_num_units r \<and>
         Existing_Cap_MW r' = Existing_Cap_MW r \<and>
         Existing_Cap_MW r' = nan_mul (Cap_size r') (Some (real (res_num_units r')))"
proof -
  from Cap_size_rounded [OF assms(1,2)] obtain c where
    c: "Cap_size r = nan_round3 c"
    and e: "Existing_Cap_MW r = nan_mul (Cap_size r) (Some (real (res_num_units r)))"
    by blast
  have cap: "Cap_size r' = Cap_size r"
    using c assms(3)
    by (cases c) (simp_all add: all_resources_round_def round_results_def nan_round3_def round3_idem)
  have n: "res_num_units r' = res_num_units r"
    using assms(3) by (simp add: all_resources_round_def round_results_def)
  have ex: "Existing_Cap_MW r' = Existing_Cap_MW r"
    using c e assms(3)
    by (cases c)
      (simp_all add: all_resources_round_def round_results_def nan_round3_def nan_mul_def
        round3_times_nat)
  from e cap n ex show ?thesis by simp
qed

text \<open>
  Claim C5. For every cluster row of the existing resources, \<open>Existing_Cap_MW\<close> is
  \<open>Cap_size\<close> (the rounded, and where configured derated, mean capacity of the
  cluster) multiplied by \<open>num_units\<close>, and the rounding of all resources in
  \<open>create_all_generators\<close> changes neither of the two, so the equation holds in the
  final table. It is not the summed capacity of the unit groups of the cluster: the
  instance below has unit groups of 1, 1 and 2 MW, a \<open>Cap_size\<close> of 1.333 and an
  existing capacity of 3.999 MW.
\<close>

theorem existing_cap_is_cap_size_times_num_units:
  assumes "existing_capacity settings capacity_factors results = Inr out"
    and "r \<in> set out"
  shows "Existing_Cap_MW r = nan_mul (Cap_size r) (Some (real (res_num_units r))) \<and>
         Cap_size (all_resources_round [r] ! 0) = Cap_size r \<and>
         res_num_units (all_resources_round [r] ! 0) = res_num_units r \<and>
         Existing_Cap_MW (all_resources_round [r] ! 0) = Existing_Cap_MW r \<and>
         Existing_Cap_MW (all_resources_round [r] ! 0) =
           nan_mul (Cap_size (all_resources_round [r] ! 0))
             (Some (real (res_num_units (all_resources_round [r] ! 0))))"
  by (rule existing_cap_rounded_again [OF assms refl])

lemma example_results_eq:
  "example_results =
     [\<lparr>res_region = ''CA_N'', res_technology = Some ''Small Hydroelectric'', res_cluster = 1,
       Cap_size = Some (4 / 3), res_num_units = 3, capacity_factor = None,
       unmodified_cap_size = None, Existing_Cap_MW = None,
       unmodified_existing_cap_mw = None\<rparr>]"
  by (simp add: example_results_def calc_unit_cluster_values_def drop_null_heat_rate_def
      groupby_def agg_cluster_def wm_def np_average_def pd_mean_def nan_div_def nan_to_zero_def
      example_small_units_def result_of_cluster_def)

lemma round3_four_thirds: "round3 (4 / 3) = 1333 / 1000"
proof -
  have "\<lfloor>(4000 / 3 :: real)\<rfloor> = 1333"
    by linarith
  then show ?thesis
    by (simp add: round3_def round_half_even_def)
qed

lemma example_existing_capacity:
  "existing_capacity no_derating (\<lambda>k. None) example_results =
     Inr [\<lparr>res_region = ''CA_N'', res_technology = Some ''Small Hydroelectric'', res_cluster = 1,
           Cap_size = Some (1333 / 1000), res_num_units = 3, capacity_factor = None,
           unmodified_cap_size = None, Existing_Cap_MW = Some (3999 / 1000),
           unmodified_existing_cap_mw = None\<rparr>]"
  by (simp add: example_results_eq existing_capacity_def no_derating_def capacity_factor_step_def
      round_results_def set_existing_cap_def nan_round3_def nan_mul_def round3_four_thirds)

theorem existing_cap_is_cap_size_times_num_units_witness:
  "sum_list (map capacity example_small_units) = 4 \<and>
   (case existing_capacity no_derating (\<lambda>k. None) example_results of
      Inl e \<Rightarrow> False
    | Inr out \<Rightarrow>
        hd out \<in> set out \<and>
        Cap_size (hd out) = Some (1333 / 1000) \<and>
        res_num_units (hd out) = 3 \<and>
        Existing_Cap_MW (hd out) = Some (3999 / 1000) \<and>
        Existing_Cap_MW (all_resources_round [hd out] ! 0) =
          nan_mul (Cap_size (hd out)) (Some (real (res_num_units (hd out)))))"
proof -
  let ?r = "\<lparr>res_region = ''CA_N'', res_technology = Some ''Small Hydroelectric'', res_cluster = 1,
           Cap_size = Some (1333 / 1000), res_num_units = 3, capacity_factor = None,
           unmodified_cap_size = None, Existing_Cap_MW = Some (3999 / 1000),
           unmodified_existing_cap_mw = None\<rparr>"
  have mem: "?r \<in> set [?r]"
    by simp
  have total: "sum_list (map capacity example_small_units) = 4"
    by (simp add: example_small_units_def)
  note inst = existing_cap_is_cap_size_times_num_units [OF example_existing_capacity mem]
  have a: "Existing_Cap_MW ?r = nan_mul (Cap_size ?r) (Some (real (res_num_units ?r)))"
    by (rule inst [THEN conjunct1])
  have b: "Existing_Cap_MW (all_resources_round [?r] ! 0) = Existing_Cap_MW ?r"
    by (rule inst [THEN conjunct2, THEN conjunct2, THEN conjunct2, THEN conjunct1])
  have "Existing_Cap_MW (all_resources_round [?r] ! 0) =
          nan_mul (Cap_size ?r) (Some (real (res_num_units ?r)))"
    by (rule trans [OF b a])
  with total show ?thesis
    by (simp add: example_existing_capacity)
qed

section \<open>Errors of the fuel labels\<close>

lemma fuel_rounds_first_error:
  assumes "\<forall>x\<in>set before. fuel_round fuel_prices settings x = Inr ()"
    and "fuel_round fuel_prices settings entry = Inl err"
  shows "fuel_rounds fuel_prices settings (before @ entry # rest) = Inl err"
  using assms by (induction before) simp_all

lemma check_regions_missing_price:
  assumes "(aeo_region, model_regions) \<in> set regions"
    and "\<not> has_price fuel_prices year (fuel_name_of aeo_region scenario fuel)"
  shows "\<exists>a. a \<in> set (map fst regions) \<and>
             check_regions fuel_prices year scenario fuel regions =
               Inl (AssertionError (fuel_name_of a scenario fuel))"
  using assms
proof (induction regions)
  case Nil
  then show ?case by simp
next
  case (Cons r regions)
  obtain a m where r: "r = (a, m)"
    by (cases r)
  show ?case
  proof (cases "has_price fuel_prices year (fuel_name_of a scenario fuel)")
    case True
    with Cons r have "(aeo_region, model_regions) \<in> set regions"
      by auto
    from Cons.IH [OF this Cons.prems(2)] True r show ?thesis
      by auto
  next
    case False
    with r show ?thesis by auto
  qed
qed

text \<open>
  Where the settings hold no \<open>None\<close>, both errors of the claim are raised: a fuel
  with an AEO scenario and a region whose series has no price in the model year stops
  the round with an AssertionError that names a series of that fuel, and a fuel with
  neither a scenario nor a user price stops it with the KeyError that names the fuel.
\<close>

lemma fuel_round_missing_price:
  assumes "atb_tech_lookup settings eia_tech = Inr ()"
    and "aeo_fuel_scenarios settings = Val scenarios"
    and "map_of scenarios fuel = Some scenario" and "scenario \<noteq> []"
    and "model_year_setting settings = Some year"
    and "aeo_fuel_region_map settings = Val regions"
    and "(aeo_region, model_regions) \<in> set regions"
    and "\<not> has_price fuel_prices year (fuel_name_of aeo_region scenario fuel)"
  shows "\<exists>a. a \<in> set (map fst regions) \<and>
             fuel_round fuel_prices settings (eia_tech, fuel) =
               Inl (AssertionError (fuel_name_of a scenario fuel))"
  using check_regions_missing_price [OF assms(7,8)] assms(1-6)
  by (simp add: fuel_round_def get_scenario_def falsy_def check_aeo_regions_def)

lemma fuel_round_unknown_fuel:
  assumes "atb_tech_lookup settings eia_tech = Inr ()"
    and "get_scenario settings fuel = Inr scenario" and "falsy scenario"
    and "model_year_setting settings = Some year"
    and "user_fuel_price settings = Missing \<or>
         (\<exists>prices. user_fuel_price settings = Val prices \<and> fuel \<notin> set (map fst prices))"
  shows "fuel_round fuel_prices settings (eia_tech, fuel) = Inl (KeyError fuel)"
  using assms by (auto simp: fuel_round_def check_user_fuel_price_def)

text \<open>
  Claim C8, where the program departs from it. A fuel of \<open>tech_fuel_map\<close> that is in
  neither the AEO scenarios nor the user fuel prices must stop the run with an error
  that names the fuel. With \<open>user_fuel_price\<close> present without a value the run stops
  with a TypeError that names nothing; with the key absent, the same settings give the
  KeyError that names the fuel, and a fuel with a scenario but no price in the model
  year gives the AssertionError that names the series.
\<close>

theorem fuel_error_with_user_price_none:
  "add_fuel_labels_tech_loop prices_2020_only settings_user_price_none = Inl TypeError \<and>
   add_fuel_labels_tech_loop prices_2020_only settings_user_price_missing =
     Inl (KeyError ''biomass'') \<and>
   add_fuel_labels_tech_loop prices_2020_only settings_coal =
     Inl (AssertionError ''mountain_reference_coal'')"
  by (simp add: add_fuel_labels_tech_loop_def tech_fuel_items_def fuel_round_def
      atb_tech_lookup_def get_scenario_def falsy_def check_user_fuel_price_def
      check_aeo_regions_def has_price_def fuel_name_of_def
      settings_user_price_none_def settings_user_price_missing_def settings_coal_def
      prices_2020_only_def)

end
